theory Spec2Isabelle
  imports Complex_Main "HOL-Library.AList" "HOL-Library.List_Lexorder" "HOL-Library.Char_ord"
    "HOL-Library.Product_Lexorder"
begin

section \<open>County Data Merger: the data model\<close>

text \<open>
  The pipeline of \<^verbatim>\<open>prepare_data.py\<close> works on pandas data frames. A frame is modelled
  by its column names, in their native order, and its rows; a row is the list of its
  named cells. A cell is a missing value (pandas \<^verbatim>\<open>NaN\<close>/\<^verbatim>\<open>None\<close>), a string, a
  value of an integer column or a value of a float column. Float arithmetic is idealised
  as exact arithmetic on the reals; \<^verbatim>\<open>NaN\<close> is the missing value \<open>NA\<close>.

  Every exception the script can raise is a value of \<open>error\<close>; a function that can raise
  returns \<open>error + 'a\<close>, with \<open>Inl\<close> for the exception.
\<close>

datatype error =
    ReadError string
  | KeyError string
  | IndexError
  | ValueError
  | TypeError

datatype cell = NA | Str string | Int64 int | Num real

type_synonym row = "(string \<times> cell) list"

record frame =
  columns :: "string list"
  rows :: "row list"

text \<open>Reading a cell of a row; a column the row does not carry reads as missing.\<close>

definition get :: "row \<Rightarrow> string \<Rightarrow> cell" where
  "get r c = (case map_of r c of None \<Rightarrow> NA | Some v \<Rightarrow> v)"

text \<open>\<^verbatim>\<open>pd.isna\<close> / \<^verbatim>\<open>pd.notna\<close> on a scalar.\<close>

fun isna :: "cell \<Rightarrow> bool" where
  "isna NA = True"
| "isna _ = False"

section \<open>Python string built-ins\<close>

text \<open>
  Two built-ins are not functions of this repository and are taken as parameters: the text
  Python prints for a float (\<^verbatim>\<open>str(x)\<close>) and the parse of a string that is not a plain
  run of decimal digits (\<^verbatim>\<open>float(s)\<close>, \<open>None\<close> for \<^verbatim>\<open>ValueError\<close>). Everything proved
  below holds for every choice of them.
\<close>

record builtins =
  float_repr :: "real \<Rightarrow> string"
  float_parse :: "string \<Rightarrow> cell option"

definition is_digit :: "char \<Rightarrow> bool" where
  "is_digit c = (CHR ''0'' \<le> c \<and> c \<le> CHR ''9'')"

definition digit_val :: "char \<Rightarrow> nat" where
  "digit_val c = of_char c - of_char CHR ''0''"

definition digit_of :: "nat \<Rightarrow> char" where
  "digit_of d = char_of (of_char CHR ''0'' + d)"

definition digits_val :: "string \<Rightarrow> nat" where
  "digits_val s = foldl (\<lambda>acc c. acc * 10 + digit_val c) 0 s"

text \<open>\<^verbatim>\<open>str(n)\<close> for an integer: decimal digits, with a minus sign when negative.\<close>

fun str_nat :: "nat \<Rightarrow> string" where
  "str_nat n = (if n < 10 then [digit_of n] else str_nat (n div 10) @ [digit_of (n mod 10)])"

declare str_nat.simps [simp del]

definition str_int :: "int \<Rightarrow> string" where
  "str_int i = (if i < 0 then CHR ''-'' # str_nat (nat (- i)) else str_nat (nat i))"

text \<open>
  \<^verbatim>\<open>s.zfill(width)\<close>: zeros are inserted on the left, after a leading sign if there is
  one; a string already \<open>width\<close> long or longer is returned as it is.
\<close>

definition zfill :: "nat \<Rightarrow> string \<Rightarrow> string" where
  "zfill width s =
     (if width \<le> length s then s
      else case s of
             [] \<Rightarrow> replicate width CHR ''0''
           | c # rest \<Rightarrow>
               if c = CHR ''+'' \<or> c = CHR ''-''
               then c # replicate (width - length s) CHR ''0'' @ rest
               else replicate (width - length s) CHR ''0'' @ s)"

definition startswith :: "string \<Rightarrow> string \<Rightarrow> bool" where
  "startswith prefix s = (take (length prefix) s = prefix)"

text \<open>\<^verbatim>\<open>.astype(str)\<close> on one cell; a missing value becomes the text \<^verbatim>\<open>nan\<close>.\<close>

fun astype_str :: "builtins \<Rightarrow> cell \<Rightarrow> string" where
  "astype_str b NA = ''nan''"
| "astype_str b (Str s) = s"
| "astype_str b (Int64 i) = str_int i"
| "astype_str b (Num x) = float_repr b x"

text \<open>
  \<^verbatim>\<open>.astype(float)\<close> on one string. A run of at most 15 decimal digits is an integer
  that a float holds exactly.
\<close>

definition astype_float :: "builtins \<Rightarrow> string \<Rightarrow> error + cell" where
  "astype_float b s =
     (if s \<noteq> [] \<and> list_all is_digit s \<and> length s \<le> 15 then Inr (Num (of_nat (digits_val s)))
      else case float_parse b s of None \<Rightarrow> Inl ValueError | Some v \<Rightarrow> Inr v)"

section \<open>Frames\<close>

definition bindE :: "error + 'a \<Rightarrow> ('a \<Rightarrow> error + 'b) \<Rightarrow> error + 'b" where
  "bindE m f = (case m of Inl e \<Rightarrow> Inl e | Inr x \<Rightarrow> f x)"

text \<open>Applying a function that can raise to every element; the first exception wins.\<close>

fun map_result :: "('a \<Rightarrow> error + 'b) \<Rightarrow> 'a list \<Rightarrow> error + 'b list" where
  "map_result f [] = Inr []"
| "map_result f (x # xs) =
     (case f x of
        Inl e \<Rightarrow> Inl e
      | Inr y \<Rightarrow> (case map_result f xs of Inl e \<Rightarrow> Inl e | Inr ys \<Rightarrow> Inr (y # ys)))"

text \<open>\<^verbatim>\<open>df[c] = values\<close>: an existing column is overwritten, a new one is appended.\<close>

definition assign :: "string \<Rightarrow> cell list \<Rightarrow> frame \<Rightarrow> frame" where
  "assign c vs f =
     \<lparr>columns = (if c \<in> set (columns f) then columns f else columns f @ [c]),
      rows = map (\<lambda>(r, v). AList.update c v r) (zip (rows f) vs)\<rparr>"

text \<open>\<^verbatim>\<open>df[[c1, ..., cn]]\<close>: \<^verbatim>\<open>KeyError\<close> when a name is not a column.\<close>

definition select :: "string list \<Rightarrow> frame \<Rightarrow> error + frame" where
  "select cs f =
     (case filter (\<lambda>c. c \<notin> set (columns f)) cs of
        [] \<Rightarrow> Inr \<lparr>columns = cs, rows = map (\<lambda>r. map (\<lambda>c. (c, get r c)) cs) (rows f)\<rparr>
      | c # _ \<Rightarrow> Inl (KeyError c))"

text \<open>\<^verbatim>\<open>df.columns = names\<close>: the columns are renamed by position.\<close>

definition set_columns :: "string list \<Rightarrow> frame \<Rightarrow> error + frame" where
  "set_columns names f =
     (if length names \<noteq> length (columns f) then Inl ValueError
      else Inr \<lparr>columns = names,
                rows = map (\<lambda>r. zip names (map (get r) (columns f))) (rows f)\<rparr>)"

section \<open>Housing tables\<close>

text \<open>
  The county key of one row (lines 38-41): both codes are turned into text, padded with
  zeros to 2 and 3 characters, concatenated, and the text is read as a float.
\<close>

definition county_key_text :: "builtins \<Rightarrow> cell \<Rightarrow> cell \<Rightarrow> string" where
  "county_key_text b state county = zfill 2 (astype_str b state) @ zfill 3 (astype_str b county)"

definition county_key :: "builtins \<Rightarrow> cell \<Rightarrow> cell \<Rightarrow> error + cell" where
  "county_key b state county = astype_float b (county_key_text b state county)"

definition with_county_fips :: "builtins \<Rightarrow> frame \<Rightarrow> error + frame" where
  "with_county_fips b f =
     (if ''StateCodeFIPS'' \<notin> set (columns f) then Inl (KeyError ''StateCodeFIPS'')
      else if ''MunicipalCodeFIPS'' \<notin> set (columns f) then Inl (KeyError ''MunicipalCodeFIPS'')
      else bindE
        (map_result (\<lambda>r. county_key b (get r ''StateCodeFIPS'') (get r ''MunicipalCodeFIPS''))
           (rows f))
        (\<lambda>keys. Inr (assign ''county_fips'' keys f)))"

text \<open>
  The time-series collapse (lines 43-44): the columns whose name starts with the two
  characters \<^verbatim>\<open>20\<close>, in native order, and the last of them; \<^verbatim>\<open>date_cols[-1]\<close> raises
  \<^verbatim>\<open>IndexError\<close> on an empty list.
\<close>

definition date_cols :: "string list \<Rightarrow> string list" where
  "date_cols cs = filter (startswith ''20'') cs"

definition current_column :: "string list \<Rightarrow> error + string" where
  "current_column cs = (case date_cols cs of [] \<Rightarrow> Inl IndexError | c # rest \<Rightarrow> Inr (last (c # rest)))"

definition with_current_value :: "string \<Rightarrow> frame \<Rightarrow> error + frame" where
  "with_current_value name f =
     bindE (current_column (columns f))
       (\<lambda>c. Inr (assign name (map (\<lambda>r. get r c) (rows f)) f))"

text \<open>
  Lines 38-48: the general housing table gets its county key and its current value, and
  is cut down to five columns, renamed by position.
\<close>

definition housing_clean_general :: "builtins \<Rightarrow> frame \<Rightarrow> error + frame" where
  "housing_clean_general b housing_general =
     bindE (with_county_fips b housing_general) (\<lambda>h1.
     bindE (with_current_value ''median_home_value'' h1) (\<lambda>h2.
     bindE (select [''county_fips'', ''RegionName'', ''StateName'', ''State'', ''median_home_value_all'']
              (assign ''median_home_value_all'' (map (\<lambda>r. get r ''median_home_value'') (rows h2)) h2))
       (set_columns [''county_fips'', ''county_name'', ''state_name'', ''state_code'',
                     ''median_home_value_all''])))"

section \<open>Joins\<close>

text \<open>
  \<^verbatim>\<open>left.merge(right, on=key, how='left')\<close>. Keys are compared by value, an integer key
  with a float key numerically, and a missing key matches a missing key. Every left row
  yields one output row for each right row with the same key, in the right table's order,
  and one output row with missing values in the right table's columns when there is none.
  The column lists joined by the script are literal and share only the key with the left
  table, so pandas' renaming of overlapping columns never applies. A join of a text key
  column with a numeric one, which pandas refuses, is outside the model: there the keys
  simply never match.
\<close>

fun keyval :: "cell \<Rightarrow> cell" where
  "keyval (Int64 i) = Num (of_int i)"
| "keyval c = c"

definition na_row :: "string list \<Rightarrow> row" where
  "na_row cs = map (\<lambda>c. (c, NA)) cs"

definition matches :: "string \<Rightarrow> frame \<Rightarrow> row \<Rightarrow> row list" where
  "matches key r lr = filter (\<lambda>rr. keyval (get rr key) = keyval (get lr key)) (rows r)"

definition joined_rows :: "string \<Rightarrow> string list \<Rightarrow> frame \<Rightarrow> row \<Rightarrow> row list" where
  "joined_rows key rcols r lr =
     (case matches key r lr of
        [] \<Rightarrow> [lr @ na_row rcols]
      | m # ms \<Rightarrow> map (\<lambda>rr. lr @ map (\<lambda>c. (c, get rr c)) rcols) (m # ms))"

definition left_merge :: "string \<Rightarrow> frame \<Rightarrow> frame \<Rightarrow> error + frame" where
  "left_merge key l r =
     (if key \<notin> set (columns l) \<or> key \<notin> set (columns r) then Inl (KeyError key)
      else let rcols = filter (\<lambda>c. c \<noteq> key) (columns r) in
        Inr \<lparr>columns = columns l @ rcols,
             rows = concat (map (joined_rows key rcols r) (rows l))\<rparr>)"

text \<open>
  Lines 50-74: an optional bedroom table, when it was read, is keyed and collapsed, and
  its key and value columns are joined to the clean table.
\<close>

definition bedroom_table :: "builtins \<Rightarrow> string \<Rightarrow> frame \<Rightarrow> error + frame" where
  "bedroom_table b name h =
     bindE (with_county_fips b h) (\<lambda>h1.
     bindE (with_current_value name h1) (select [''county_fips'', name]))"

definition add_bedrooms :: "builtins \<Rightarrow> string \<Rightarrow> frame option \<Rightarrow> frame \<Rightarrow> error + frame" where
  "add_bedrooms b name housing_br housing_clean =
     (case housing_br of
        None \<Rightarrow> Inr housing_clean
      | Some h \<Rightarrow> bindE (bedroom_table b name h) (left_merge ''county_fips'' housing_clean))"

definition housing_clean :: "builtins \<Rightarrow> frame \<Rightarrow> frame option \<Rightarrow> frame option \<Rightarrow> error + frame" where
  "housing_clean b housing_general housing_4br housing_5br =
     bindE (housing_clean_general b housing_general) (\<lambda>h.
     bindE (add_bedrooms b ''median_home_value_4br'' housing_4br h)
       (add_bedrooms b ''median_home_value_5br'' housing_5br))"

section \<open>Election aggregation\<close>

text \<open>
  One record of the county presidential returns. The key fields can be missing in the file;
  vote counts are non-negative integers.
\<close>

record vote =
  year :: int
  state_po :: "string option"
  county_name :: "string option"
  county_fips :: "real option"
  party :: "string option"
  candidatevotes :: nat

type_synonym county = "string \<times> string \<times> real"

text \<open>
  \<^verbatim>\<open>pivot_table\<close> groups by index and column keys and drops a record with a missing key.
  Its index is sorted; its columns are the parties that occur.
\<close>

definition county_of :: "vote \<Rightarrow> county option" where
  "county_of v =
     (case (state_po v, county_name v, county_fips v, party v) of
        (Some s, Some n, Some k, Some p) \<Rightarrow> Some (s, n, k)
      | _ \<Rightarrow> None)"

definition pivot_index :: "vote list \<Rightarrow> county list" where
  "pivot_index vs = sort (remdups (List.map_filter county_of vs))"

definition pivot_columns :: "vote list \<Rightarrow> string list" where
  "pivot_columns vs =
     sort (remdups (List.map_filter (\<lambda>v. if county_of v = None then None else party v) vs))"

definition party_votes :: "string \<Rightarrow> county \<Rightarrow> vote list \<Rightarrow> nat" where
  "party_votes p k vs =
     sum_list (map candidatevotes (filter (\<lambda>v. county_of v = Some k \<and> party v = Some p) vs))"

text \<open>
  The votes of a party in a county after lines 90-93: the pivot cell (the sum, or the
  \<^verbatim>\<open>fill_value\<close> 0 when the county has no record of the party) when the party is a
  column, and the constant 0 of the added column otherwise.
\<close>

definition pivot_votes :: "string \<Rightarrow> county \<Rightarrow> vote list \<Rightarrow> nat" where
  "pivot_votes p k vs = (if p \<in> set (pivot_columns vs) then party_votes p k vs else 0)"

text \<open>
  \<^verbatim>\<open>.round(1)\<close>: to the nearest tenth, a tie to the even neighbour.
\<close>

definition round_half_even :: "real \<Rightarrow> int" where
  "round_half_even x =
     (let f = \<lfloor>x\<rfloor>; d = x - of_int f in
      if d < 1 / 2 then f else if 1 / 2 < d then f + 1 else if even f then f else f + 1)"

definition round1 :: "real \<Rightarrow> real" where
  "round1 x = of_int (round_half_even (x * 10)) / 10"

text \<open>
  Lines 95-98. The total is the sum of the two counts, so it is zero only when both are
  zero; pandas evaluates 0 / 0 to \<^verbatim>\<open>NaN\<close> and raises nothing, and \<^verbatim>\<open>NaN\<close> stays
  \<^verbatim>\<open>NaN\<close> under multiplication, rounding and subtraction.
\<close>

definition pct :: "nat \<Rightarrow> nat \<Rightarrow> cell" where
  "pct votes total_votes =
     (if total_votes = 0 then NA else Num (round1 (real votes / real total_votes * 100)))"

fun lean :: "cell \<Rightarrow> cell \<Rightarrow> cell" where
  "lean (Num dem_pct) (Num rep_pct) = Num (round1 (dem_pct - rep_pct))"
| "lean _ _ = NA"

definition elec_row :: "real \<Rightarrow> nat \<Rightarrow> nat \<Rightarrow> row" where
  "elec_row fips dem rep =
     (let total_votes = dem + rep;
          dem_pct = pct dem total_votes;
          rep_pct = pct rep total_votes
      in [(''county_fips'', Num fips), (''dem_pct'', dem_pct), (''rep_pct'', rep_pct),
          (''lean_score'', lean dem_pct rep_pct)])"

definition elec_clean :: "vote list \<Rightarrow> frame" where
  "elec_clean elections =
     (let elec_2024 = filter (\<lambda>v. year v = 2024) elections in
      \<lparr>columns = [''county_fips'', ''dem_pct'', ''rep_pct'', ''lean_score''],
       rows = map (\<lambda>k. elec_row (snd (snd k)) (pivot_votes ''DEMOCRAT'' k elec_2024)
                                  (pivot_votes ''REPUBLICAN'' k elec_2024))
                  (pivot_index elec_2024)\<rparr>)"

section \<open>Derived categories\<close>

text \<open>
  \<^verbatim>\<open>categorize_lean\<close>: the \<^verbatim>\<open>elif\<close> chain on a numeric score. Comparing a string
  with a number raises \<^verbatim>\<open>TypeError\<close> in Python 3.
\<close>

definition lean_category :: "real \<Rightarrow> string" where
  "lean_category score =
     (if score > 20 then ''Strong Democrat''
      else if score > 5 then ''Lean Democrat''
      else if score > -5 then ''Swing''
      else if score > -20 then ''Lean Republican''
      else ''Strong Republican'')"

fun categorize_lean :: "cell \<Rightarrow> error + string" where
  "categorize_lean NA = Inr ''Unknown''"
| "categorize_lean (Num score) = Inr (lean_category score)"
| "categorize_lean (Int64 score) = Inr (lean_category (of_int score))"
| "categorize_lean (Str s) = Inl TypeError"

text \<open>
  \<^verbatim>\<open>categorize_gun_law\<close>: the missing-value test comes first, then membership in the
  literal grade lists. A number is in none of the lists.
\<close>

fun categorize_gun_law :: "cell \<Rightarrow> string" where
  "categorize_gun_law NA = ''Unknown''"
| "categorize_gun_law (Str grade) =
     (if grade \<in> set [''A+'', ''A'', ''A-''] then ''Strong''
      else if grade \<in> set [''B+'', ''B'', ''B-''] then ''Moderate''
      else if grade \<in> set [''C+'', ''C'', ''C-''] then ''Weak''
      else if grade \<in> set [''D+'', ''D'', ''D-''] then ''Very Weak''
      else ''Minimal'')"
| "categorize_gun_law _ = ''Minimal''"

section \<open>Merging, filtering and derived fields\<close>

text \<open>A state-level optional table (lines 136-147): joined when it was read, skipped otherwise.\<close>

definition merge_optional :: "string list \<Rightarrow> frame option \<Rightarrow> frame \<Rightarrow> error + frame" where
  "merge_optional cols src merged =
     (case src of
        None \<Rightarrow> Inr merged
      | Some t \<Rightarrow> bindE (select (''state_code'' # cols) t) (left_merge ''state_code'' merged))"

definition exotic_cols :: "string list" where
  "exotic_cols = [''exotic_animal_rating'', ''allows_primates'', ''allows_big_cats'', ''allows_reptiles'']"

definition marijuana_cols :: "string list" where
  "marijuana_cols = [''marijuana_status'', ''recreational_legal'', ''medical_legal'', ''permissiveness_score'']"

text \<open>Lines 128-147.\<close>

definition merge_all ::
  "frame \<Rightarrow> frame \<Rightarrow> frame \<Rightarrow> frame \<Rightarrow> frame option \<Rightarrow> frame option \<Rightarrow> error + frame" where
  "merge_all housing elec gun_laws population exotic_animals marijuana =
     bindE (left_merge ''county_fips'' housing elec) (\<lambda>m1.
     bindE (bindE (select [''state_code'', ''gun_law_grade'', ''gun_death_rate''] gun_laws)
              (left_merge ''state_code'' m1)) (\<lambda>m2.
     bindE (bindE (select [''county_fips'', ''population''] population)
              (left_merge ''county_fips'' m2)) (\<lambda>m3.
     bindE (merge_optional exotic_cols exotic_animals m3)
       (merge_optional marijuana_cols marijuana))))"

text \<open>\<^verbatim>\<open>dropna(subset=[c])\<close>.\<close>

definition dropna :: "string \<Rightarrow> frame \<Rightarrow> error + frame" where
  "dropna c f =
     (if c \<notin> set (columns f) then Inl (KeyError c)
      else Inr (f\<lparr>rows := filter (\<lambda>r. \<not> isna (get r c)) (rows f)\<rparr>))"

text \<open>\<^verbatim>\<open>df[new] = df[col].apply(fn)\<close> for a function that returns a string or raises.\<close>

definition apply_column ::
  "string \<Rightarrow> string \<Rightarrow> (cell \<Rightarrow> error + string) \<Rightarrow> frame \<Rightarrow> error + frame" where
  "apply_column new col fn f =
     (if col \<notin> set (columns f) then Inl (KeyError col)
      else bindE (map_result (\<lambda>r. fn (get r col)) (rows f))
             (\<lambda>vs. Inr (assign new (map Str vs) f)))"

text \<open>
  The display text \<^verbatim>\<open>f"${x:,.0f}"\<close>: the value rounded to an integer, a tie to the even
  neighbour, with a comma before every group of three digits; the sign follows the dollar
  sign. A string cannot be formatted with \<^verbatim>\<open>f\<close> and raises \<^verbatim>\<open>ValueError\<close>.
\<close>

fun group3 :: "string \<Rightarrow> string" where
  "group3 s =
     (if length s \<le> 3 then s
      else group3 (take (length s - 3) s) @ CHR '','' # drop (length s - 3) s)"

declare group3.simps [simp del]

definition currency :: "real \<Rightarrow> string" where
  "currency x =
     CHR ''$'' # (if x < 0 then ''-'' else []) @ group3 (str_nat (nat (round_half_even \<bar>x\<bar>)))"

fun format_value :: "cell \<Rightarrow> error + string" where
  "format_value NA = Inr ''N/A''"
| "format_value (Num x) = Inr (currency x)"
| "format_value (Int64 i) = Inr (currency (of_int i))"
| "format_value (Str s) = Inl ValueError"

definition format_if_present :: "string \<Rightarrow> frame \<Rightarrow> error + frame" where
  "format_if_present col f =
     (if col \<in> set (columns f) then apply_column (col @ ''_formatted'') col format_value f
      else Inr f)"

text \<open>Lines 150-199.\<close>

definition derive_fields :: "frame \<Rightarrow> error + frame" where
  "derive_fields merged =
     bindE (dropna ''median_home_value_all'' merged) (\<lambda>m.
     bindE (apply_column ''median_home_value_all_formatted'' ''median_home_value_all''
              format_value m) (\<lambda>m1.
     bindE (format_if_present ''median_home_value_4br'' m1) (\<lambda>m2.
     bindE (format_if_present ''median_home_value_5br'' m2) (\<lambda>m3.
     bindE (apply_column ''political_lean'' ''lean_score'' categorize_lean m3)
       (apply_column ''gun_law_strength'' ''gun_law_grade''
          (\<lambda>grade. Inr (categorize_gun_law grade)))))))"

section \<open>The pipeline\<close>

text \<open>
  \<^verbatim>\<open>prepare_data\<close>. Each source is what \<^verbatim>\<open>read_csv\<close> returned, or \<open>None\<close> when the
  read raised. A required source that cannot be read aborts the run; for the four optional
  sources the exception is caught and the source is \<^verbatim>\<open>None\<close>. The steps run in the order
  of the script.
\<close>

definition prepare_data ::
  "builtins \<Rightarrow> frame option \<Rightarrow> frame option \<Rightarrow> frame option \<Rightarrow> vote list option \<Rightarrow>
   frame option \<Rightarrow> frame option \<Rightarrow> frame option \<Rightarrow> frame option \<Rightarrow> error + frame" where
  "prepare_data b housing_general housing_4br housing_5br elections gun_laws population
     exotic_animals marijuana =
     (case housing_general of
        None \<Rightarrow> Inl (ReadError ''housing_general'')
      | Some hg \<Rightarrow>
     bindE (housing_clean b hg housing_4br housing_5br) (\<lambda>housing.
     (case elections of
        None \<Rightarrow> Inl (ReadError ''elections'')
      | Some el \<Rightarrow>
     (case gun_laws of
        None \<Rightarrow> Inl (ReadError ''gun_laws'')
      | Some gl \<Rightarrow>
     (case population of
        None \<Rightarrow> Inl (ReadError ''population'')
      | Some pop \<Rightarrow>
     bindE (merge_all housing (elec_clean el) gl pop exotic_animals marijuana)
       derive_fields)))))"

section \<open>The specification's wording, for comparison\<close>

text \<open>A name that begins with a 4-digit year.\<close>

definition year_prefixed :: "string \<Rightarrow> bool" where
  "year_prefixed c = (4 \<le> length c \<and> list_all is_digit (take 4 c))"

definition spec_current_column :: "string list \<Rightarrow> error + string" where
  "spec_current_column cs =
     (case filter year_prefixed cs of [] \<Rightarrow> Inl IndexError | c # rest \<Rightarrow> Inr (last (c # rest)))"

text \<open>The decimal text of a number, padded with zeros on the left to a width.\<close>

definition pad_dec :: "nat \<Rightarrow> nat \<Rightarrow> string" where
  "pad_dec width n = replicate (width - length (str_nat n)) CHR ''0'' @ str_nat n"

text \<open>
  A state or county code as the housing files supply it: a non-negative integer of at most
  \<open>width\<close> digits, or a non-empty text of at most \<open>width\<close> decimal digits; and the number
  it denotes.
\<close>

fun code_ok :: "nat \<Rightarrow> cell \<Rightarrow> bool" where
  "code_ok width (Int64 i) = (0 \<le> i \<and> i < 10 ^ width)"
| "code_ok width (Str s) = (s \<noteq> [] \<and> length s \<le> width \<and> list_all is_digit s)"
| "code_ok width _ = False"

fun code_val :: "cell \<Rightarrow> nat" where
  "code_val (Int64 i) = nat i"
| "code_val (Str s) = digits_val s"
| "code_val _ = 0"

section \<open>Predicates on rows\<close>

text \<open>A row with an overall home value, and a row whose display text renders that value.\<close>

definition has_value :: "row \<Rightarrow> bool" where
  "has_value r = (\<not> isna (get r ''median_home_value_all''))"

definition formatted_ok :: "row \<Rightarrow> bool" where
  "formatted_ok r =
     (\<exists>s. get r ''median_home_value_all_formatted'' = Str (CHR ''$'' # s) \<and>
          format_value (get r ''median_home_value_all'') = Inr (CHR ''$'' # s))"

section \<open>The join properties, stated\<close>

text \<open>The five columns of the clean overall-housing table, the anchor of the merge.\<close>

definition anchor_cols :: "string list" where
  "anchor_cols = [''county_fips'', ''county_name'', ''state_name'', ''state_code'',
                  ''median_home_value_all'']"

text \<open>A table with at most one row per join key.\<close>

definition unique_key :: "string \<Rightarrow> frame \<Rightarrow> bool" where
  "unique_key key t = distinct (map (\<lambda>r. keyval (get r key)) (rows t))"

text \<open>
  An output row agrees with an anchor row on a list of columns; two lists of rows cover each
  other when every row of one has a row of the other that agrees with it.
\<close>

definition agree :: "string list \<Rightarrow> row \<Rightarrow> row \<Rightarrow> bool" where
  "agree cs a out = list_all (\<lambda>c. get out c = get a c) cs"

definition covers :: "string list \<Rightarrow> row list \<Rightarrow> row list \<Rightarrow> bool" where
  "covers cs l m =
     (list_all (\<lambda>a. list_ex (agree cs a) m) l \<and> list_all (\<lambda>out. list_ex (\<lambda>a. agree cs a out) l) m)"

text \<open>Every joined source of a run has at most one row per join key.\<close>

definition unique_bedrooms :: "builtins \<Rightarrow> string \<Rightarrow> frame option \<Rightarrow> bool" where
  "unique_bedrooms b name housing_br =
     (case housing_br of
        None \<Rightarrow> True
      | Some h \<Rightarrow>
          (case bedroom_table b name h of
             Inl e \<Rightarrow> True
           | Inr t \<Rightarrow> unique_key ''county_fips'' t))"

definition unique_optional :: "frame option \<Rightarrow> bool" where
  "unique_optional src = (case src of None \<Rightarrow> True | Some t \<Rightarrow> unique_key ''state_code'' t)"

definition unique_sources ::
  "builtins \<Rightarrow> frame option \<Rightarrow> frame option \<Rightarrow> vote list \<Rightarrow> frame \<Rightarrow> frame \<Rightarrow>
   frame option \<Rightarrow> frame option \<Rightarrow> bool" where
  "unique_sources b housing_4br housing_5br elections gun_laws population exotic_animals
     marijuana =
     (unique_bedrooms b ''median_home_value_4br'' housing_4br \<and>
      unique_bedrooms b ''median_home_value_5br'' housing_5br \<and>
      unique_key ''county_fips'' (elec_clean elections) \<and>
      unique_key ''state_code'' gun_laws \<and>
      unique_key ''county_fips'' population \<and>
      unique_optional exotic_animals \<and>
      unique_optional marijuana)"




section \<open>An example run\<close>

text \<open>A choice of the two built-in parameters, for evaluating examples.\<close>

definition example_builtins :: builtins where
  "example_builtins = \<lparr>float_repr = (\<lambda>x. ''0.0''), float_parse = (\<lambda>s. None)\<rparr>"

definition housing_example :: frame where
  "housing_example =
     \<lparr>columns = [''RegionName'', ''2024-11-30'', ''2024-12-31''],
      rows = [[(''RegionName'', Str ''Alameda County''), (''2024-11-30'', Num 1190000),
               (''2024-12-31'', Num 1200000)]]\<rparr>"

text \<open>
  A small run: Alameda County (key 06001, 600 Democrat, 300 Republican and 50 other votes
  in 2024), Autauga County (key 01001, an election record with no two-party votes, no
  population record) and Alpine County (key 06003, no current home value).
\<close>

definition housing_general_example :: frame where
  "housing_general_example =
     \<lparr>columns = [''RegionName'', ''StateName'', ''State'', ''StateCodeFIPS'', ''MunicipalCodeFIPS'',
                 ''2024-11-30'', ''2024-12-31''],
      rows = [[(''RegionName'', Str ''Alameda County''), (''StateName'', Str ''CA''),
                      (''State'', Str ''CA''), (''StateCodeFIPS'', Int64 6),
                      (''MunicipalCodeFIPS'', Int64 1), (''2024-11-30'', Num 1190000),
                      (''2024-12-31'', Num 1200000)],
              [(''RegionName'', Str ''Autauga County''), (''StateName'', Str ''AL''),
                      (''State'', Str ''AL''), (''StateCodeFIPS'', Int64 1),
                      (''MunicipalCodeFIPS'', Int64 1), (''2024-11-30'', Num 250000),
                      (''2024-12-31'', Num 251500)],
              [(''RegionName'', Str ''Alpine County''), (''StateName'', Str ''CA''),
                      (''State'', Str ''CA''), (''StateCodeFIPS'', Int64 6),
                      (''MunicipalCodeFIPS'', Int64 3), (''2024-11-30'', Num 400000),
                      (''2024-12-31'', NA)]]\<rparr>"

definition housing_4br_example :: frame where
  "housing_4br_example =
     \<lparr>columns = [''StateCodeFIPS'', ''MunicipalCodeFIPS'', ''2024-12-31''],
      rows = [[(''StateCodeFIPS'', Int64 6), (''MunicipalCodeFIPS'', Int64 1),
                      (''2024-12-31'', Num 1500000)]]\<rparr>"

definition elections_example :: "vote list" where
  "elections_example =
     [\<lparr>year = 2024, state_po = Some ''CA'', county_name = Some ''ALAMEDA'', county_fips = Some 6001,
       party = Some ''DEMOCRAT'', candidatevotes = 600\<rparr>,
      \<lparr>year = 2024, state_po = Some ''CA'', county_name = Some ''ALAMEDA'', county_fips = Some 6001,
       party = Some ''REPUBLICAN'', candidatevotes = 300\<rparr>,
      \<lparr>year = 2024, state_po = Some ''CA'', county_name = Some ''ALAMEDA'', county_fips = Some 6001,
       party = Some ''OTHER'', candidatevotes = 50\<rparr>,
      \<lparr>year = 2020, state_po = Some ''CA'', county_name = Some ''ALAMEDA'', county_fips = Some 6001,
       party = Some ''REPUBLICAN'', candidatevotes = 900\<rparr>,
      \<lparr>year = 2024, state_po = Some ''AL'', county_name = Some ''AUTAUGA'', county_fips = Some 1001,
       party = Some ''OTHER'', candidatevotes = 7\<rparr>]"

definition gun_laws_example :: frame where
  "gun_laws_example =
     \<lparr>columns = [''state_code'', ''gun_law_grade'', ''gun_death_rate''],
      rows = [[(''state_code'', Str ''CA''), (''gun_law_grade'', Str ''A''),
                      (''gun_death_rate'', Num 8.5)],
              [(''state_code'', Str ''AL''), (''gun_law_grade'', Str ''F''),
                      (''gun_death_rate'', Num 25.5)]]\<rparr>"

definition population_example :: frame where
  "population_example =
     \<lparr>columns = [''county_fips'', ''population''],
      rows = [[(''county_fips'', Int64 6001), (''population'', Int64 1600000)]]\<rparr>"

definition marijuana_example :: frame where
  "marijuana_example =
     \<lparr>columns = [''state_code'', ''marijuana_status'', ''recreational_legal'', ''medical_legal'',
                 ''permissiveness_score''],
      rows = [[(''state_code'', Str ''CA''), (''marijuana_status'', Str ''Legal''),
                      (''recreational_legal'', Str ''Yes''), (''medical_legal'', Str ''Yes''),
                      (''permissiveness_score'', Int64 5)]]\<rparr>"

definition example_run :: "error + frame" where
  "example_run =
     prepare_data example_builtins (Some housing_general_example) (Some housing_4br_example) None
       (Some elections_example) (Some gun_laws_example) (Some population_example) None
       (Some marijuana_example)"

definition example_housing :: frame where
  "example_housing =
     \<lparr>columns = [''county_fips'', ''county_name'', ''state_name'', ''state_code'',
                 ''median_home_value_all'', ''median_home_value_4br''],
      rows =
        [[(''county_fips'', Num 6001), (''county_name'', Str ''Alameda County''),
          (''state_name'', Str ''CA''), (''state_code'', Str ''CA''),
          (''median_home_value_all'', Num 1200000), (''median_home_value_4br'', Num 1500000)],
         [(''county_fips'', Num 1001), (''county_name'', Str ''Autauga County''),
          (''state_name'', Str ''AL''), (''state_code'', Str ''AL''),
          (''median_home_value_all'', Num 251500), (''median_home_value_4br'', NA)],
         [(''county_fips'', Num 6003), (''county_name'', Str ''Alpine County''),
          (''state_name'', Str ''CA''), (''state_code'', Str ''CA''),
          (''median_home_value_all'', NA), (''median_home_value_4br'', NA)]]\<rparr>"

definition example_elec :: frame where
  "example_elec =
     \<lparr>columns = [''county_fips'', ''dem_pct'', ''rep_pct'', ''lean_score''],
      rows = [[(''county_fips'', Num 1001), (''dem_pct'', NA), (''rep_pct'', NA),
               (''lean_score'', NA)],
              [(''county_fips'', Num 6001), (''dem_pct'', Num 66.7), (''rep_pct'', Num 33.3),
               (''lean_score'', Num 33.4)]]\<rparr>"

definition example_merged :: frame where
  "example_merged =
     \<lparr>columns =
        [''county_fips'', ''county_name'', ''state_name'', ''state_code'',
         ''median_home_value_all'', ''median_home_value_4br'', ''dem_pct'',
         ''rep_pct'', ''lean_score'', ''gun_law_grade'', ''gun_death_rate'',
         ''population'', ''marijuana_status'', ''recreational_legal'',
         ''medical_legal'', ''permissiveness_score''],
      rows =
          [[(''county_fips'', Num 6001), (''county_name'', Str ''Alameda County''),
            (''state_name'', Str ''CA''), (''state_code'', Str ''CA''),
            (''median_home_value_all'', Num 1200000),
            (''median_home_value_4br'', Num 1500000),
            (''dem_pct'', Num 66.7), (''rep_pct'', Num 33.3),
            (''lean_score'', Num 33.4), (''gun_law_grade'', Str ''A''),
            (''gun_death_rate'', Num 8.5), (''population'', Int64 1600000),
            (''marijuana_status'', Str ''Legal''), (''recreational_legal'', Str ''Yes''),
            (''medical_legal'', Str ''Yes''), (''permissiveness_score'', Int64 5)],
           [(''county_fips'', Num 1001), (''county_name'', Str ''Autauga County''),
            (''state_name'', Str ''AL''), (''state_code'', Str ''AL''),
            (''median_home_value_all'', Num 251500), (''median_home_value_4br'', NA),
            (''dem_pct'', NA), (''rep_pct'', NA), (''lean_score'', NA),
            (''gun_law_grade'', Str ''F''), (''gun_death_rate'', Num 25.5),
            (''population'', NA), (''marijuana_status'', NA), (''recreational_legal'', NA),
            (''medical_legal'', NA), (''permissiveness_score'', NA)],
           [(''county_fips'', Num 6003), (''county_name'', Str ''Alpine County''),
            (''state_name'', Str ''CA''), (''state_code'', Str ''CA''),
            (''median_home_value_all'', NA), (''median_home_value_4br'', NA),
            (''dem_pct'', NA), (''rep_pct'', NA), (''lean_score'', NA),
            (''gun_law_grade'', Str ''A''), (''gun_death_rate'', Num 8.5),
            (''population'', NA),
            (''marijuana_status'', Str ''Legal''), (''recreational_legal'', Str ''Yes''),
            (''medical_legal'', Str ''Yes''), (''permissiveness_score'', Int64 5)]]\<rparr>"

definition example_output :: frame where
  "example_output =
     \<lparr>columns =
        [''county_fips'', ''county_name'', ''state_name'', ''state_code'',
         ''median_home_value_all'', ''median_home_value_4br'', ''dem_pct'',
         ''rep_pct'', ''lean_score'', ''gun_law_grade'', ''gun_death_rate'',
         ''population'', ''marijuana_status'', ''recreational_legal'',
         ''medical_legal'', ''permissiveness_score'',
         ''median_home_value_all_formatted'', ''median_home_value_4br_formatted'',
         ''political_lean'', ''gun_law_strength''],
      rows =
          [[(''county_fips'', Num 6001), (''county_name'', Str ''Alameda County''),
            (''state_name'', Str ''CA''), (''state_code'', Str ''CA''),
            (''median_home_value_all'', Num 1200000),
            (''median_home_value_4br'', Num 1500000),
            (''dem_pct'', Num 66.7), (''rep_pct'', Num 33.3),
            (''lean_score'', Num 33.4), (''gun_law_grade'', Str ''A''),
            (''gun_death_rate'', Num 8.5), (''population'', Int64 1600000),
            (''marijuana_status'', Str ''Legal''), (''recreational_legal'', Str ''Yes''),
            (''medical_legal'', Str ''Yes''), (''permissiveness_score'', Int64 5),
            (''median_home_value_all_formatted'', Str ''$1,200,000''),
            (''median_home_value_4br_formatted'', Str ''$1,500,000''),
            (''political_lean'', Str ''Strong Democrat''),
            (''gun_law_strength'', Str ''Strong'')],
           [(''county_fips'', Num 1001), (''county_name'', Str ''Autauga County''),
            (''state_name'', Str ''AL''), (''state_code'', Str ''AL''),
            (''median_home_value_all'', Num 251500), (''median_home_value_4br'', NA),
            (''dem_pct'', NA), (''rep_pct'', NA), (''lean_score'', NA),
            (''gun_law_grade'', Str ''F''), (''gun_death_rate'', Num 25.5),
            (''population'', NA), (''marijuana_status'', NA), (''recreational_legal'', NA),
            (''medical_legal'', NA), (''permissiveness_score'', NA),
            (''median_home_value_all_formatted'', Str ''$251,500''),
            (''median_home_value_4br_formatted'', Str ''N/A''),
            (''political_lean'', Str ''Unknown''),
            (''gun_law_strength'', Str ''Minimal'')]]\<rparr>"

section \<open>Properties\<close>

subsection \<open>Gun-law strength\<close>

text \<open>
  C3, as the specification states it for a missing grade, fails: the function tests
  \<^verbatim>\<open>pd.isna(grade)\<close> before anything else and answers "Unknown", not "Minimal".
\<close>

theorem categorize_gun_law_missing_counterexample:
  "categorize_gun_law NA = ''Unknown'' \<and> categorize_gun_law NA \<noteq> ''Minimal''"
  by simp

text \<open>
  C3 (amended): grades A+, A, A- are Strong; B+, B, B- Moderate; C+, C, C- Weak;
  D+, D, D- Very Weak; a missing grade is "Unknown"; every other present value,
  string or number, is "Minimal".
\<close>

theorem categorize_gun_law_table:
  "categorize_gun_law NA = ''Unknown'' \<and>
   categorize_gun_law (Str g) =
     (if g = ''A+'' \<or> g = ''A'' \<or> g = ''A-'' then ''Strong''
      else if g = ''B+'' \<or> g = ''B'' \<or> g = ''B-'' then ''Moderate''
      else if g = ''C+'' \<or> g = ''C'' \<or> g = ''C-'' then ''Weak''
      else if g = ''D+'' \<or> g = ''D'' \<or> g = ''D-'' then ''Very Weak''
      else ''Minimal'') \<and>
   categorize_gun_law (Int64 i) = ''Minimal'' \<and>
   categorize_gun_law (Num x) = ''Minimal''"
  by simp

theorem categorize_gun_law_table_witness:
  "categorize_gun_law NA = ''Unknown'' \<and>
   categorize_gun_law (Str ''B-'') = ''Moderate'' \<and>
   categorize_gun_law (Str ''F'') = ''Minimal'' \<and>
   categorize_gun_law (Int64 3) = ''Minimal'' \<and>
   categorize_gun_law (Num 3) = ''Minimal''"
  using categorize_gun_law_table [of "''B-''" 3 3] categorize_gun_law_table [of "''F''" 3 3]
  by simp

subsection \<open>Political lean\<close>

text \<open>
  C4: a missing score is "Unknown"; a score \<open>s\<close> is "Strong Democrat" iff \<open>s > 20\<close>,
  "Lean Democrat" iff \<open>5 < s \<le> 20\<close>, "Swing" iff \<open>-5 < s \<le> 5\<close>, "Lean Republican"
  iff \<open>-20 < s \<le> -5\<close>, "Strong Republican" iff \<open>s \<le> -20\<close>. The boundaries are
  exact: 20 is "Lean Democrat" and 5 is "Swing".
\<close>

theorem categorize_lean_thresholds:
  "categorize_lean NA = Inr ''Unknown'' \<and>
   (categorize_lean (Num s) = Inr ''Strong Democrat'' \<longleftrightarrow> 20 < s) \<and>
   (categorize_lean (Num s) = Inr ''Lean Democrat'' \<longleftrightarrow> 5 < s \<and> s \<le> 20) \<and>
   (categorize_lean (Num s) = Inr ''Swing'' \<longleftrightarrow> -5 < s \<and> s \<le> 5) \<and>
   (categorize_lean (Num s) = Inr ''Lean Republican'' \<longleftrightarrow> -20 < s \<and> s \<le> -5) \<and>
   (categorize_lean (Num s) = Inr ''Strong Republican'' \<longleftrightarrow> s \<le> -20) \<and>
   categorize_lean (Num 20) = Inr ''Lean Democrat'' \<and>
   categorize_lean (Num 5) = Inr ''Swing''"
  by (simp add: lean_category_def)

theorem categorize_lean_thresholds_witness:
  "categorize_lean (Num (-5)) = Inr ''Lean Republican'' \<and>
   categorize_lean (Num (-20)) = Inr ''Strong Republican'' \<and>
   categorize_lean (Num 20.1) = Inr ''Strong Democrat''"
  using categorize_lean_thresholds [of "-5"] categorize_lean_thresholds [of "-20"]
    categorize_lean_thresholds [of "20.1"]
  by simp

subsection \<open>Decimal digits and padding\<close>

lemma digit_val_digit_of: "d < 10 \<Longrightarrow> digit_val (digit_of d) = d"
  by (simp add: digit_val_def digit_of_def)

lemma is_digit_digit_of: "d < 10 \<Longrightarrow> is_digit (digit_of d)"
  apply (simp add: is_digit_def digit_of_def less_eq_char_def)
  done

lemma is_digit_iff: "is_digit c \<longleftrightarrow> 48 \<le> (of_char c :: nat) \<and> (of_char c :: nat) \<le> 57"
  by (simp add: is_digit_def less_eq_char_def)

lemma digit_val_lt: "is_digit c \<Longrightarrow> digit_val c < 10"
  by (auto simp: is_digit_iff digit_val_def)

lemma digit_val_inj: "is_digit c \<Longrightarrow> is_digit d \<Longrightarrow> digit_val c = digit_val d \<Longrightarrow> c = d"
proof -
  assume a: "is_digit c" "is_digit d" "digit_val c = digit_val d"
  then have "48 \<le> (of_char c :: nat)" "48 \<le> (of_char d :: nat)"
    "(of_char c :: nat) - 48 = of_char d - 48" by (simp_all add: is_digit_iff digit_val_def)
  then have "(of_char c :: nat) = of_char d" by linarith
  then show "c = d" by (rule of_char_eqI)
qed

lemma digits_val_snoc: "digits_val (s @ [c]) = digits_val s * 10 + digit_val c"
  by (simp add: digits_val_def)

lemma digits_val_Nil: "digits_val [] = 0"
  by (simp add: digits_val_def)

lemma digits_val_append: "digits_val (a @ b) = digits_val a * 10 ^ length b + digits_val b"
  by (induction b rule: rev_induct) (simp_all add: digits_val_snoc digits_val_Nil flip: append_assoc)

lemma digits_val_zeros: "digits_val (replicate k CHR ''0'') = 0"
proof (induction k)
  case 0 then show ?case by (simp add: digits_val_Nil)
next
  case (Suc k)
  have "replicate (Suc k) CHR ''0'' = replicate k CHR ''0'' @ [CHR ''0'']"
    by (simp add: replicate_append_same)
  with Suc show ?case by (simp only: digits_val_snoc) (simp add: digit_val_def)
qed

lemma digits_val_lt: "list_all is_digit s \<Longrightarrow> digits_val s < 10 ^ length s"
proof (induction s rule: rev_induct)
  case Nil then show ?case by (simp add: digits_val_Nil)
next
  case (snoc c s)
  then have "digits_val s < 10 ^ length s" "digit_val c < 10" by (simp_all add: digit_val_lt)
  then show ?case by (simp add: digits_val_snoc)
qed

lemma digits_unique:
  "list_all is_digit a \<Longrightarrow> list_all is_digit b \<Longrightarrow> length a = length b \<Longrightarrow>
   digits_val a = digits_val b \<Longrightarrow> a = b"
proof (induction a arbitrary: b rule: rev_induct)
  case Nil then show ?case by simp
next
  case (snoc c a)
  then obtain d b' where b: "b = b' @ [d]" by (cases b rule: rev_cases) auto
  from snoc.prems b have dc: "is_digit c" "is_digit d" "list_all is_digit a" "list_all is_digit b'"
    "length a = length b'" by simp_all
  from snoc.prems(4) b have eq: "digits_val a * 10 + digit_val c = digits_val b' * 10 + digit_val d"
    by (simp add: digits_val_snoc)
  have lt: "digit_val c < 10" "digit_val d < 10" using dc by (simp_all add: digit_val_lt)
  from eq lt have "digit_val c = digit_val d" "digits_val a = digits_val b'" by presburger+
  with dc snoc.IH [of b'] show ?case by (simp add: b digit_val_inj)
qed

lemma str_nat_digits: "list_all is_digit (str_nat n)"
  by (induction n rule: str_nat.induct) (subst str_nat.simps, simp add: is_digit_digit_of)

lemma str_nat_val: "digits_val (str_nat n) = n"
  by (induction n rule: str_nat.induct)
     (subst str_nat.simps, simp add: digits_val_snoc digit_val_digit_of digits_val_def)

lemma str_nat_nonempty: "str_nat n \<noteq> []"
  by (subst str_nat.simps) simp

lemma str_nat_length: "n < 10 ^ w \<Longrightarrow> 0 < w \<Longrightarrow> length (str_nat n) \<le> w"
proof (induction n arbitrary: w rule: str_nat.induct)
  case (1 n)
  show ?case
  proof (cases "n < 10")
    case True then show ?thesis using 1 by (subst str_nat.simps) simp
  next
    case False
    then obtain w' where w: "w = Suc w'" using 1 by (cases w) auto
    with False 1 have "0 < w'" by (cases w') auto
    moreover from 1 w have "n div 10 < 10 ^ w'" by (simp add: less_mult_imp_div_less mult.commute)
    ultimately have "length (str_nat (n div 10)) \<le> w'" using 1 False by simp
    then show ?thesis using False w by (subst str_nat.simps) simp
  qed
qed


lemma zeros_digits: "list_all is_digit (replicate k CHR ''0'')"
  by (simp add: list_all_iff is_digit_iff)

lemma pow10_mono: "a \<le> b \<Longrightarrow> (10::nat) ^ a \<le> 10 ^ b"
  by (rule power_increasing) simp_all

lemma zfill_digits:
  "list_all is_digit s \<Longrightarrow> zfill w s = replicate (w - length s) CHR ''0'' @ s"
  by (cases s) (auto simp: zfill_def is_digit_iff)

lemma pad_dec_str_nat: "zfill w (str_nat n) = pad_dec w n"
  by (simp add: zfill_digits str_nat_digits pad_dec_def)

lemma pad_dec_digits: "list_all is_digit (pad_dec w n)"
  by (simp add: pad_dec_def str_nat_digits zeros_digits)

lemma pad_dec_val: "digits_val (pad_dec w n) = n"
  by (simp add: pad_dec_def digits_val_append digits_val_zeros str_nat_val)

lemma pad_dec_length: "n < 10 ^ w \<Longrightarrow> 0 < w \<Longrightarrow> length (pad_dec w n) = w"
  using str_nat_length [of n w] by (simp add: pad_dec_def)

lemma zfill_pad_dec:
  assumes "list_all is_digit t" "length t \<le> w" "0 < w"
  shows "zfill w t = pad_dec w (digits_val t)"
proof -
  have lt: "digits_val t < 10 ^ w"
  proof -
    have "(10::nat) ^ length t \<le> 10 ^ w" using assms(2) by (rule pow10_mono)
    with digits_val_lt [OF assms(1)] show ?thesis by (rule less_le_trans)
  qed
  have z: "zfill w t = replicate (w - length t) CHR ''0'' @ t"
    by (rule zfill_digits [OF assms(1)])
  show ?thesis
  proof (rule digits_unique)
    show "list_all is_digit (zfill w t)" using assms(1) by (simp add: z zeros_digits)
    show "list_all is_digit (pad_dec w (digits_val t))" by (rule pad_dec_digits)
    show "length (zfill w t) = length (pad_dec w (digits_val t))"
      using assms(2) by (simp add: z pad_dec_length [OF lt assms(3)])
    show "digits_val (zfill w t) = digits_val (pad_dec w (digits_val t))"
      by (simp add: z digits_val_append digits_val_zeros pad_dec_val)
  qed
qed

lemma code_text:
  assumes "code_ok w x" "0 < w"
  shows "zfill w (astype_str b x) = pad_dec w (code_val x)" and "code_val x < 10 ^ w"
proof -
  show "zfill w (astype_str b x) = pad_dec w (code_val x)"
    using assms by (cases x) (simp_all add: str_int_def pad_dec_str_nat zfill_pad_dec)
  show "code_val x < 10 ^ w"
  proof (cases x)
    case (Str t)
    with assms have "digits_val t < 10 ^ length t" "length t \<le> w" by (simp_all add: digits_val_lt)
    then have "digits_val t < 10 ^ w" using pow10_mono [of "length t" w] by linarith
    then show ?thesis using Str by simp
  next
    case (Int64 i)
    with assms show ?thesis by (simp add: nat_less_iff)
  qed (use assms in simp_all)
qed

lemma county_key_text_pad:
  assumes "code_ok 2 s" "code_ok 3 c"
  shows "county_key_text b s c = pad_dec 2 (code_val s) @ pad_dec 3 (code_val c)"
    and "county_key_text b s c = pad_dec 5 (code_val s * 1000 + code_val c)"
    and "length (county_key_text b s c) = 5"
    and "county_key b s c = Inr (Num (of_nat (code_val s * 1000 + code_val c)))"
proof -
  let ?n = "code_val s" and ?m = "code_val c"
  have n: "?n < 10 ^ 2" and m: "?m < 10 ^ 3"
    using code_text(2) [OF assms(1)] code_text(2) [OF assms(2)] by simp_all
  show t: "county_key_text b s c = pad_dec 2 ?n @ pad_dec 3 ?m"
    using code_text(1) [OF assms(1)] code_text(1) [OF assms(2)] by (simp add: county_key_text_def)
  have len: "length (pad_dec 2 ?n @ pad_dec 3 ?m) = 5"
    using pad_dec_length [OF n] pad_dec_length [OF m] by simp
  then show l: "length (county_key_text b s c) = 5" by (simp add: t)
  have dg: "list_all is_digit (pad_dec 2 ?n @ pad_dec 3 ?m)" by (simp add: pad_dec_digits)
  have v: "digits_val (pad_dec 2 ?n @ pad_dec 3 ?m) = ?n * 1000 + ?m"
    using pad_dec_length [OF m] by (simp add: digits_val_append pad_dec_val)
  have big: "?n * 1000 + ?m < 10 ^ 5" using n m by simp
  have "pad_dec 2 ?n @ pad_dec 3 ?m = pad_dec 5 (?n * 1000 + ?m)"
    by (rule digits_unique [OF dg pad_dec_digits]) (simp_all only: len pad_dec_length [OF big] v pad_dec_val)
  then show "county_key_text b s c = pad_dec 5 (?n * 1000 + ?m)" by (simp add: t)
  have "county_key_text b s c \<noteq> []" using l by auto
  then show "county_key b s c = Inr (Num (of_nat (?n * 1000 + ?m)))"
    using dg v l by (simp add: county_key_def astype_float_def t)
qed

lemma map_result_all:
  "(\<And>x. x \<in> set xs \<Longrightarrow> f x = Inr (g x)) \<Longrightarrow> map_result f xs = Inr (map g xs)"
  by (induction xs) simp_all

subsection \<open>County key\<close>

text \<open>
  C1: for a state code of at most 2 digits and a county code of at most 3 digits, given as
  integers or as digit strings, the key text is the state code padded to 2 digits followed
  by the county code padded to 3 digits, which is the 5-digit zero-padded decimal of
  \<open>1000 * state + county\<close>; the key is that number; two rows have the same key only if
  they have the same state and the same county; and \<open>with_county_fips\<close> stores this key
  in every row of a housing table.
\<close>

theorem county_fips_padded:
  assumes "code_ok 2 s" "code_ok 3 c" "code_ok 2 s'" "code_ok 3 c'"
  shows "county_key_text b s c = pad_dec 2 (code_val s) @ pad_dec 3 (code_val c) \<and>
         county_key_text b s c = pad_dec 5 (code_val s * 1000 + code_val c) \<and>
         length (county_key_text b s c) = 5 \<and>
         county_key b s c = Inr (Num (of_nat (code_val s * 1000 + code_val c))) \<and>
         (county_key b s c = county_key b s' c' \<longleftrightarrow>
            code_val s = code_val s' \<and> code_val c = code_val c') \<and>
         (\<forall>f. ''StateCodeFIPS'' \<in> set (columns f) \<and> ''MunicipalCodeFIPS'' \<in> set (columns f) \<and>
              (\<forall>r \<in> set (rows f). code_ok 2 (get r ''StateCodeFIPS'') \<and>
                                    code_ok 3 (get r ''MunicipalCodeFIPS'')) \<longrightarrow>
              with_county_fips b f =
                Inr (assign ''county_fips''
                      (map (\<lambda>r. Num (of_nat (code_val (get r ''StateCodeFIPS'') * 1000 +
                                              code_val (get r ''MunicipalCodeFIPS'')))) (rows f)) f))"
proof -
  have m: "code_val c < 1000" "code_val c' < 1000"
    using code_text(2) [OF assms(2)] code_text(2) [OF assms(4)] by simp_all
  have split: "x = x' \<and> y = y'" if "x * 1000 + y = x' * 1000 + y'" "y < 1000" "y' < 1000"
    for x y x' y' :: nat
  proof -
    have "(x * 1000 + y) div 1000 = x" "(x' * 1000 + y') div 1000 = x'" using that(2,3) by simp_all
    with that(1) have "x = x'" by simp
    with that(1) show ?thesis by simp
  qed
  have inj: "county_key b s c = county_key b s' c' \<longleftrightarrow>
            code_val s = code_val s' \<and> code_val c = code_val c'"
    unfolding county_key_text_pad(4) [OF assms(1,2)] county_key_text_pad(4) [OF assms(3,4)]
      sum.inject cell.inject of_nat_eq_iff
    using split [OF _ m, of "code_val s" "code_val s'"] by auto
  have fr: "with_county_fips b f =
                Inr (assign ''county_fips''
                      (map (\<lambda>r. Num (of_nat (code_val (get r ''StateCodeFIPS'') * 1000 +
                                              code_val (get r ''MunicipalCodeFIPS'')))) (rows f)) f)"
    if "''StateCodeFIPS'' \<in> set (columns f)" "''MunicipalCodeFIPS'' \<in> set (columns f)"
       "\<forall>r \<in> set (rows f). code_ok 2 (get r ''StateCodeFIPS'') \<and> code_ok 3 (get r ''MunicipalCodeFIPS'')"
    for f
  proof -
    have "map_result (\<lambda>r. county_key b (get r ''StateCodeFIPS'') (get r ''MunicipalCodeFIPS'')) (rows f)
        = Inr (map (\<lambda>r. Num (of_nat (code_val (get r ''StateCodeFIPS'') * 1000 +
                                              code_val (get r ''MunicipalCodeFIPS'')))) (rows f))"
      by (rule map_result_all) (use that(3) in \<open>simp add: county_key_text_pad(4)\<close>)
    then show ?thesis using that(1,2) by (simp add: with_county_fips_def bindE_def)
  qed
  note k = county_key_text_pad [OF assms(1,2)]
  show ?thesis
    apply (intro conjI allI impI)
         apply (rule k(1))
        apply (rule k(2))
       apply (rule k(3))
      apply (rule k(4))
     apply (rule inj)
    apply (rule fr)
      apply simp_all
    done
qed

theorem county_fips_padded_witness:
  "code_ok 2 (Int64 1) \<and> code_ok 3 (Int64 1) \<and> code_ok 2 (Str ''10'') \<and> code_ok 3 (Str ''001'') \<and>
   county_key_text example_builtins (Int64 1) (Int64 1) = ''01001'' \<and>
   county_key example_builtins (Int64 1) (Int64 1) = Inr (Num 1001) \<and>
   county_key example_builtins (Int64 1) (Int64 1) \<noteq> county_key example_builtins (Str ''10'') (Str ''001'')"
proof -
  have h: "code_ok 2 (Int64 1)" "code_ok 3 (Int64 1)" "code_ok 2 (Str ''10'')" "code_ok 3 (Str ''001'')"
    by (simp_all add: is_digit_def less_eq_char_def)
  have v: "code_val (Str ''10'') = 10" "code_val (Int64 1) = 1"
    by (simp_all add: digits_val_def digit_val_def)
  have p: "pad_dec 5 1001 = ''01001''" by code_simp
  note T = county_fips_padded [OF h, of example_builtins]
  have "county_key_text example_builtins (Int64 1) (Int64 1) = ''01001''"
    using T [THEN conjunct2, THEN conjunct1] p by (simp only: v) simp
  moreover have "county_key example_builtins (Int64 1) (Int64 1) = Inr (Num 1001)"
    using T [THEN conjunct2, THEN conjunct2, THEN conjunct2, THEN conjunct1] by (simp only: v) simp
  moreover have "county_key example_builtins (Int64 1) (Int64 1) \<noteq> county_key example_builtins (Str ''10'') (Str ''001'')"
    using T [THEN conjunct2, THEN conjunct2, THEN conjunct2, THEN conjunct2, THEN conjunct1]
    by (simp only: v) simp
  ultimately show ?thesis using h by blast
qed

subsection \<open>Time-series collapse\<close>

text \<open>
  C2, as the specification states it, fails: the column list is filtered by
  \<^verbatim>\<open>col.startswith('20')\<close>, not by a 4-digit year prefix. A column named
  \<^verbatim>\<open>20_day_change\<close> after the months is taken as the current month, and a table whose
  months all lie before 2000 raises \<^verbatim>\<open>IndexError\<close>.
\<close>

theorem current_column_year_prefix_counterexample:
  "current_column [''RegionName'', ''2024-12-31'', ''20_day_change''] = Inr ''20_day_change'' \<and>
   spec_current_column [''RegionName'', ''2024-12-31'', ''20_day_change''] = Inr ''2024-12-31'' \<and>
   current_column [''RegionName'', ''1999-12-31''] = Inl IndexError \<and>
   spec_current_column [''RegionName'', ''1999-12-31''] = Inr ''1999-12-31''"
  by (simp add: current_column_def date_cols_def startswith_def spec_current_column_def
      year_prefixed_def is_digit_def less_eq_char_def)

lemma filter_last_split:
  "filter P cs = x # xs \<Longrightarrow>
   \<exists>pre post. cs = pre @ last (x # xs) # post \<and> P (last (x # xs)) \<and> (\<forall>d \<in> set post. \<not> P d)"
proof (induction cs arbitrary: x xs rule: rev_induct)
  case Nil then show ?case by simp
next
  case (snoc y ys)
  show ?case
  proof (cases "P y")
    case True
    with snoc.prems have "last (x # xs) = y"
      by (metis filter.simps(1,2) filter_append last_snoc)
    with True show ?thesis by (intro exI [of _ ys] exI [of _ "[]"]) simp
  next
    case False
    with snoc.prems have "filter P ys = x # xs" by simp
    from snoc.IH [OF this] obtain pre post where
      "ys = pre @ last (x # xs) # post" "P (last (x # xs))" "\<forall>d \<in> set post. \<not> P d" by blast
    with False show ?thesis
      by (intro exI [of _ pre] exI [of _ "post @ [y]"]) simp
  qed
qed


lemma filter_split_last:
  "cs = pre @ c # post \<Longrightarrow> P c \<Longrightarrow> \<forall>d \<in> set post. \<not> P d \<Longrightarrow> filter P cs = filter P pre @ [c]"
  by (simp add: filter_empty_conv)


lemma current_column_Inr:
  "current_column cs = Inr c \<longleftrightarrow>
     (\<exists>pre post. cs = pre @ c # post \<and> startswith ''20'' c \<and> (\<forall>d \<in> set post. \<not> startswith ''20'' d))"
proof
  assume "current_column cs = Inr c"
  then obtain x xs where f: "filter (startswith ''20'') cs = x # xs" and c: "c = last (x # xs)"
    by (auto simp: current_column_def date_cols_def split: list.splits)
  from filter_last_split [OF f] c show "\<exists>pre post. cs = pre @ c # post \<and> startswith ''20'' c \<and>
      (\<forall>d \<in> set post. \<not> startswith ''20'' d)" by simp
next
  assume "\<exists>pre post. cs = pre @ c # post \<and> startswith ''20'' c \<and> (\<forall>d \<in> set post. \<not> startswith ''20'' d)"
  then obtain pre post where "cs = pre @ c # post" "startswith ''20'' c"
    "\<forall>d \<in> set post. \<not> startswith ''20'' d" by blast
  from filter_split_last [OF this] show "current_column cs = Inr c"
    by (cases "filter (startswith ''20'') pre") (simp_all add: current_column_def date_cols_def)
qed


lemma current_column_Inl:
  "current_column cs = Inl e \<longleftrightarrow> e = IndexError \<and> (\<forall>d \<in> set cs. \<not> startswith ''20'' d)"
proof (cases "filter (startswith ''20'') cs")
  case Nil
  then show ?thesis by (auto simp: current_column_def date_cols_def filter_empty_conv)
next
  case (Cons x xs)
  then have "x \<in> set (filter (startswith ''20'') cs)" by simp
  then have "x \<in> set cs" "startswith ''20'' x" by simp_all
  then show ?thesis using Cons by (auto simp: current_column_def date_cols_def)
qed

lemma assign_rows_map:
  "rows (assign c (map g (rows f)) f) = map (\<lambda>r. AList.update c (g r) r) (rows f)"
  by (simp add: assign_def zip_map2 zip_same_conv_map)


text \<open>
  C2 (amended): the current value of every row is read from the last column, in the
  table's native column order, whose name begins with the two characters \<^verbatim>\<open>20\<close>;
  when no column name begins with them the step raises \<^verbatim>\<open>IndexError\<close>.
\<close>

theorem current_column_last_20_prefixed:
  "(current_column cs = Inr c \<longleftrightarrow>
      (\<exists>pre post. cs = pre @ c # post \<and> startswith ''20'' c \<and>
                  (\<forall>d \<in> set post. \<not> startswith ''20'' d))) \<and>
   (current_column cs = Inl e \<longleftrightarrow> e = IndexError \<and> (\<forall>d \<in> set cs. \<not> startswith ''20'' d)) \<and>
   (with_current_value name f = Inr f' \<longrightarrow>
      (\<exists>col. current_column (columns f) = Inr col \<and>
             rows f' = map (\<lambda>r. AList.update name (get r col) r) (rows f)))"
  using current_column_Inr [of cs c] current_column_Inl [of cs e]
  by (auto simp: with_current_value_def bindE_def assign_rows_map split: sum.splits)


theorem current_column_last_20_prefixed_witness:
  "current_column [''RegionName'', ''2024-11-30'', ''2024-12-31''] = Inr ''2024-12-31'' \<and>
   current_column [''RegionName'', ''1999-12-31''] = Inl IndexError \<and>
   (\<exists>f'. with_current_value ''median_home_value'' housing_example = Inr f' \<and>
     map (\<lambda>r. get r ''median_home_value'') (rows f') = [Num 1200000])"
proof -
  let ?cs = "[''RegionName'', ''2024-11-30'', ''2024-12-31'']"
  let ?f' = "assign ''median_home_value'' (map (\<lambda>r. get r ''2024-12-31'') (rows housing_example))
               housing_example"
  have cols: "columns housing_example = ?cs" by (simp add: housing_example_def)
  have d: "with_current_value ''median_home_value'' housing_example = Inr ?f'"
    by (simp add: with_current_value_def bindE_def current_column_def date_cols_def startswith_def
        cols)
  note T = current_column_last_20_prefixed [of ?cs "''2024-12-31''" IndexError
      "''median_home_value''" housing_example ?f']
  note U = current_column_last_20_prefixed [of "[''RegionName'', ''1999-12-31'']" "''x''" IndexError
      "''m''" housing_example housing_example]
  have "\<exists>pre post. ?cs = pre @ ''2024-12-31'' # post \<and> startswith ''20'' ''2024-12-31'' \<and>
          (\<forall>d \<in> set post. \<not> startswith ''20'' d)"
    by (intro exI [of _ "[''RegionName'', ''2024-11-30'']"] exI [of _ "[]"]) (simp add: startswith_def)
  then have a: "current_column ?cs = Inr ''2024-12-31''"
    by (rule iffD2 [OF T [THEN conjunct1]])
  have "IndexError = IndexError \<and> (\<forall>d \<in> set [''RegionName'', ''1999-12-31'']. \<not> startswith ''20'' d)"
    by (simp add: startswith_def)
  then have b: "current_column [''RegionName'', ''1999-12-31''] = Inl IndexError"
    by (rule iffD2 [OF U [THEN conjunct2, THEN conjunct1]])
  from T [THEN conjunct2, THEN conjunct2, THEN mp, OF d] obtain col where
    col: "current_column (columns housing_example) = Inr col"
    and r: "rows ?f' = map (\<lambda>r. AList.update ''median_home_value'' (get r col) r) (rows housing_example)"
    by blast
  from col a have "col = ''2024-12-31''" by (simp only: cols sum.inject)
  with r have m: "map (\<lambda>r. get r ''median_home_value'') (rows ?f') = [Num 1200000]"
    by (simp add: housing_example_def get_def)
  show ?thesis
    apply (intro conjI exI [of _ ?f'])
       apply (rule a)
      apply (rule b)
     apply (rule d)
    apply (rule m)
    done
qed

subsection \<open>Rows, columns and results\<close>

lemma get_update: "get (AList.update c v r) c' = (if c' = c then v else get r c')"
  by (simp add: get_def update_conv')

lemma get_append:
  "get (l @ r) c = (if c \<in> fst ` set l then get l c else get r c)"
proof -
  have "(c \<in> fst ` set l) = (map_of l c \<noteq> None)" by (simp add: map_of_eq_None_iff)
  then show ?thesis by (cases "map_of l c") (simp_all add: get_def map_add_def)
qed

lemma get_pairs: "get (map (\<lambda>c. (c, g c)) cs) c = (if c \<in> set cs then g c else NA)"
  by (induction cs) (auto simp: get_def)

lemma get_na_row: "get (na_row cs) c = NA"
  by (simp add: na_row_def get_pairs)

lemma get_not_carried: "c \<notin> fst ` set r \<Longrightarrow> get r c = NA"
proof -
  assume "c \<notin> fst ` set r"
  then have "map_of r c = None" by (simp add: map_of_eq_None_iff)
  then show ?thesis by (simp add: get_def)
qed

lemma bindE_Inr: "bindE m f = Inr y \<longleftrightarrow> (\<exists>x. m = Inr x \<and> f x = Inr y)"
  by (cases m) (simp_all add: bindE_def)

lemma map_result_Inr:
  "map_result f xs = Inr ys \<longleftrightarrow> list_all2 (\<lambda>x y. f x = Inr y) xs ys"
proof (induction xs arbitrary: ys)
  case Nil then show ?case by auto
next
  case (Cons x xs)
  show ?case by (cases ys) (auto split: sum.splits simp: Cons.IH [symmetric])
qed

lemma assign_columns:
  "columns (assign c vs f) = (if c \<in> set (columns f) then columns f else columns f @ [c])"
  by (simp add: assign_def)

lemma apply_column_Inr:
  assumes "apply_column new col fn f = Inr g"
  shows "columns g = (if new \<in> set (columns f) then columns f else columns f @ [new])"
    and "col \<in> set (columns f)"
    and "list_all2 (\<lambda>r r'. \<exists>v. fn (get r col) = Inr v \<and> r' = AList.update new (Str v) r)
           (rows f) (rows g)"
proof -
  from assms show c: "col \<in> set (columns f)" by (auto simp: apply_column_def split: if_splits)
  with assms obtain vs where vs: "list_all2 (\<lambda>r v. fn (get r col) = Inr v) (rows f) vs"
    and g: "g = assign new (map Str vs) f"
    by (auto simp: apply_column_def bindE_Inr map_result_Inr)
  show "columns g = (if new \<in> set (columns f) then columns f else columns f @ [new])"
    by (simp add: g assign_columns)
  from vs have "length (rows f) = length vs" by (rule list_all2_lengthD)
  with vs show "list_all2 (\<lambda>r r'. \<exists>v. fn (get r col) = Inr v \<and> r' = AList.update new (Str v) r)
           (rows f) (rows g)"
    by (auto simp: g assign_def list_all2_conv_all_nth)
qed

lemma apply_column_get:
  assumes "apply_column new col fn f = Inr g" "c \<noteq> new"
  shows "map (\<lambda>r. get r c) (rows g) = map (\<lambda>r. get r c) (rows f)"
  using apply_column_Inr(3) [OF assms(1)] assms(2)
  by (auto simp: list_all2_conv_all_nth get_update intro!: nth_equalityI)

lemma dropna_Inr:
  assumes "dropna c f = Inr g"
  shows "columns g = columns f" and "c \<in> set (columns f)"
    and "rows g = filter (\<lambda>r. \<not> isna (get r c)) (rows f)"
  using assms by (auto simp: dropna_def split: if_splits)

lemma select_Inr:
  assumes "select cs f = Inr g"
  shows "columns g = cs" and "set cs \<subseteq> set (columns f)"
    and "rows g = map (\<lambda>r. map (\<lambda>c. (c, get r c)) cs) (rows f)"
  using assms by (auto simp: select_def filter_empty_conv split: list.splits)

lemma left_merge_Inr:
  assumes "left_merge key l r = Inr m"
  shows "columns m = columns l @ filter (\<lambda>c. c \<noteq> key) (columns r)"
    and "key \<in> set (columns l)" and "key \<in> set (columns r)"
    and "rows m = concat (map (joined_rows key (filter (\<lambda>c. c \<noteq> key) (columns r)) r) (rows l))"
  using assms by (auto simp: left_merge_def Let_def split: if_splits)

subsection \<open>The final filter and the derived fields\<close>

lemma list_all2_setD2: "list_all2 R xs ys \<Longrightarrow> y \<in> set ys \<Longrightarrow> \<exists>x \<in> set xs. R x y"
  by (induction rule: list_all2_induct) auto

lemma apply_column_all:
  assumes "apply_column new col fn f = Inr g"
    and "\<And>r. r \<in> set (rows f) \<Longrightarrow> P r"
    and "\<And>r v. P r \<Longrightarrow> fn (get r col) = Inr v \<Longrightarrow> Q (AList.update new (Str v) r)"
    and "r' \<in> set (rows g)"
  shows "Q r'"
proof -
  from list_all2_setD2 [OF apply_column_Inr(3) [OF assms(1)] assms(4)]
  obtain r v where "r \<in> set (rows f)" "fn (get r col) = Inr v" "r' = AList.update new (Str v) r"
    by blast
  with assms(2,3) show ?thesis by blast
qed

lemma format_if_present_all:
  assumes "format_if_present col f = Inr g"
    and "\<And>r. r \<in> set (rows f) \<Longrightarrow> P r"
    and "\<And>r v. P r \<Longrightarrow> P (AList.update (col @ ''_formatted'') (Str v) r)"
    and "r' \<in> set (rows g)"
  shows "P r'"
proof (cases "col \<in> set (columns f)")
  case True
  with assms(1) have "apply_column (col @ ''_formatted'') col format_value f = Inr g"
    by (simp add: format_if_present_def)
  from apply_column_all [OF this, of P P] assms(2,3,4) show ?thesis by blast
next
  case False
  with assms(1) have "g = f" by (simp add: format_if_present_def)
  with assms(2,4) show ?thesis by simp
qed

lemma format_if_present_columns:
  assumes "format_if_present col f = Inr g"
  shows "columns g =
    (if col \<in> set (columns f) \<and> col @ ''_formatted'' \<notin> set (columns f)
     then columns f @ [col @ ''_formatted''] else columns f)"
  using assms apply_column_Inr(1) [of "col @ ''_formatted''" col format_value f g]
  by (auto simp: format_if_present_def split: if_splits)

lemma derive_fields_Inr:
  assumes "derive_fields merged = Inr out"
  obtains m m1 m2 m3 m4 where
    "dropna ''median_home_value_all'' merged = Inr m"
    "apply_column ''median_home_value_all_formatted'' ''median_home_value_all'' format_value m = Inr m1"
    "format_if_present ''median_home_value_4br'' m1 = Inr m2"
    "format_if_present ''median_home_value_5br'' m2 = Inr m3"
    "apply_column ''political_lean'' ''lean_score'' categorize_lean m3 = Inr m4"
    "apply_column ''gun_law_strength'' ''gun_law_grade'' (\<lambda>grade. Inr (categorize_gun_law grade)) m4
       = Inr out"
  using assms unfolding derive_fields_def bindE_Inr by blast

lemma prepare_data_Inr:
  assumes "prepare_data b housing_general housing_4br housing_5br elections gun_laws population
             exotic_animals marijuana = Inr out"
  obtains hg el gl pop housing merged where
    "housing_general = Some hg" "elections = Some el" "gun_laws = Some gl" "population = Some pop"
    "housing_clean b hg housing_4br housing_5br = Inr housing"
    "merge_all housing (elec_clean el) gl pop exotic_animals marijuana = Inr merged"
    "derive_fields merged = Inr out"
proof -
  from assms obtain hg where hg: "housing_general = Some hg"
    by (cases housing_general) (simp_all add: prepare_data_def)
  from assms hg obtain housing where h: "housing_clean b hg housing_4br housing_5br = Inr housing"
    by (cases "housing_clean b hg housing_4br housing_5br") (simp_all add: prepare_data_def bindE_def)
  from assms hg h obtain el where el: "elections = Some el"
    by (cases elections) (simp_all add: prepare_data_def bindE_def)
  from assms hg h el obtain gl where gl: "gun_laws = Some gl"
    by (cases gun_laws) (simp_all add: prepare_data_def bindE_def)
  from assms hg h el gl obtain pop where pop: "population = Some pop"
    by (cases population) (simp_all add: prepare_data_def bindE_def)
  from assms hg h el gl pop obtain merged where
    "merge_all housing (elec_clean el) gl pop exotic_animals marijuana = Inr merged"
    "derive_fields merged = Inr out"
    by (cases "merge_all housing (elec_clean el) gl pop exotic_animals marijuana")
       (simp_all add: prepare_data_def bindE_def)
  with hg h el gl pop that show thesis by blast
qed

lemma currency_not_na: "currency x \<noteq> ''N/A''"
  by (simp add: currency_def)

lemma format_value_na: "format_value c = Inr ''N/A'' \<longleftrightarrow> c = NA"
  by (cases c) (simp_all add: currency_def)

lemma format_value_dollar:
  "\<not> isna c \<Longrightarrow> format_value c = Inr v \<Longrightarrow> \<exists>s. v = CHR ''$'' # s"
  by (cases c) (auto simp: currency_def)

lemma derive_fields_rows:
  assumes "derive_fields merged = Inr out" "r \<in> set (rows out)"
  shows "has_value r" and "formatted_ok r"
proof -
  from assms(1) obtain m m1 m2 m3 m4 where
    m: "dropna ''median_home_value_all'' merged = Inr m"
    and m1: "apply_column ''median_home_value_all_formatted'' ''median_home_value_all'' format_value m = Inr m1"
    and m2: "format_if_present ''median_home_value_4br'' m1 = Inr m2"
    and m3: "format_if_present ''median_home_value_5br'' m2 = Inr m3"
    and m4: "apply_column ''political_lean'' ''lean_score'' categorize_lean m3 = Inr m4"
    and out: "apply_column ''gun_law_strength'' ''gun_law_grade'' (\<lambda>grade. Inr (categorize_gun_law grade)) m4
       = Inr out"
    by (rule derive_fields_Inr)
  define P where "P = (\<lambda>r. has_value r \<and> formatted_ok r)"
  have p0: "has_value r" if "r \<in> set (rows m)" for r
    using that dropna_Inr(3) [OF m] by (simp add: has_value_def)
  have first: "P (AList.update ''median_home_value_all_formatted'' (Str v) r)"
    if "has_value r" "format_value (get r ''median_home_value_all'') = Inr v" for r v
    using that format_value_dollar [of "get r ''median_home_value_all''" v]
    by (auto simp: P_def has_value_def formatted_ok_def get_update)
  have keep: "P (AList.update c v r)"
    if "P r" "c \<noteq> ''median_home_value_all''" "c \<noteq> ''median_home_value_all_formatted''" for c v r
    using that by (simp add: P_def has_value_def formatted_ok_def get_update)
  have p1: "P r" if "r \<in> set (rows m1)" for r
    using apply_column_all [OF m1, where P = has_value and Q = P] p0 first that by blast
  have p2: "P r" if "r \<in> set (rows m2)" for r
    using format_if_present_all [OF m2, where P = P] p1 keep that by simp
  have p3: "P r" if "r \<in> set (rows m3)" for r
    using format_if_present_all [OF m3, where P = P] p2 keep that by simp
  have p4: "P r" if "r \<in> set (rows m4)" for r
    using apply_column_all [OF m4, where P = P and Q = P] p3 keep that by simp
  have "P r"
    using apply_column_all [OF out, where P = P and Q = P] p4 keep assms(2) by simp
  then show "has_value r" and "formatted_ok r" by (simp_all add: P_def)
qed

lemma derive_fields_column:
  assumes "derive_fields merged = Inr out"
  shows "''median_home_value_all'' \<in> set (columns out)"
proof -
  from assms obtain m m1 m2 m3 m4 where
    m: "dropna ''median_home_value_all'' merged = Inr m"
    and m1: "apply_column ''median_home_value_all_formatted'' ''median_home_value_all'' format_value m = Inr m1"
    and m2: "format_if_present ''median_home_value_4br'' m1 = Inr m2"
    and m3: "format_if_present ''median_home_value_5br'' m2 = Inr m3"
    and m4: "apply_column ''political_lean'' ''lean_score'' categorize_lean m3 = Inr m4"
    and out: "apply_column ''gun_law_strength'' ''gun_law_grade'' (\<lambda>grade. Inr (categorize_gun_law grade)) m4
       = Inr out"
    by (rule derive_fields_Inr)
  have "''median_home_value_all'' \<in> set (columns m)" using dropna_Inr(1,2) [OF m] by simp
  then have "''median_home_value_all'' \<in> set (columns m1)" using apply_column_Inr(1) [OF m1] by simp
  then have "''median_home_value_all'' \<in> set (columns m2)"
    using format_if_present_columns [OF m2] by (simp split: if_splits)
  then have "''median_home_value_all'' \<in> set (columns m3)"
    using format_if_present_columns [OF m3] by (simp split: if_splits)
  then have "''median_home_value_all'' \<in> set (columns m4)" using apply_column_Inr(1) [OF m4] by simp
  then show ?thesis using apply_column_Inr(1) [OF out] by simp
qed

text \<open>
  C8: every row of the output has a non-missing overall median home value, and dropping
  the rows with a missing overall home value from the output returns the output unchanged.
\<close>

theorem output_rows_have_home_value:
  assumes "prepare_data b housing_general housing_4br housing_5br elections gun_laws population
             exotic_animals marijuana = Inr out"
  shows "(\<forall>r \<in> set (rows out). \<not> isna (get r ''median_home_value_all'')) \<and>
         dropna ''median_home_value_all'' out = Inr out"
proof -
  from assms obtain merged where d: "derive_fields merged = Inr out"
    by (rule prepare_data_Inr)
  have a: "\<forall>r \<in> set (rows out). \<not> isna (get r ''median_home_value_all'')"
    using derive_fields_rows(1) [OF d] by (simp add: has_value_def)
  then have "filter (\<lambda>r. \<not> isna (get r ''median_home_value_all'')) (rows out) = rows out"
    by simp
  with derive_fields_column [OF d] a show ?thesis by (simp add: dropna_def)
qed

text \<open>
  C10: in every output row the formatted overall home value is the currency text of the
  row's overall home value, a text that starts with the dollar sign, and is never "N/A";
  the display function answers "N/A" exactly for a missing value, which after the filter
  only the optional 4-bedroom and 5-bedroom values can be.
\<close>

theorem formatted_home_value_never_na:
  assumes "prepare_data b housing_general housing_4br housing_5br elections gun_laws population
             exotic_animals marijuana = Inr out"
  shows "(\<forall>r \<in> set (rows out).
            (\<exists>s. get r ''median_home_value_all_formatted'' = Str (CHR ''$'' # s) \<and>
                 format_value (get r ''median_home_value_all'') = Inr (CHR ''$'' # s)) \<and>
            get r ''median_home_value_all_formatted'' \<noteq> Str ''N/A'') \<and>
         (\<forall>c. format_value c = Inr ''N/A'' \<longleftrightarrow> c = NA)"
proof -
  from assms obtain merged where d: "derive_fields merged = Inr out"
    by (rule prepare_data_Inr)
  have "(\<exists>s. get r ''median_home_value_all_formatted'' = Str (CHR ''$'' # s) \<and>
                 format_value (get r ''median_home_value_all'') = Inr (CHR ''$'' # s)) \<and>
            get r ''median_home_value_all_formatted'' \<noteq> Str ''N/A''"
    if "r \<in> set (rows out)" for r
    using derive_fields_rows(2) [OF d that] by (auto simp: formatted_ok_def)
  then show ?thesis using format_value_na by blast
qed

subsection \<open>The example run\<close>

lemmas eval_frame = bindE_def assign_def select_def set_columns_def get_def left_merge_def
  joined_rows_def matches_def na_row_def dropna_def apply_column_def startswith_def

lemma ex_key: "county_key b (Int64 6) (Int64 1) = Inr (Num 6001)"
  "county_key b (Int64 1) (Int64 1) = Inr (Num 1001)"
  "county_key b (Int64 6) (Int64 3) = Inr (Num 6003)"
  using county_key_text_pad(4) [of "Int64 6" "Int64 1" b]
    county_key_text_pad(4) [of "Int64 1" "Int64 1" b]
    county_key_text_pad(4) [of "Int64 6" "Int64 3" b]
  by simp_all

lemma ex_housing:
  "housing_clean b housing_general_example (Some housing_4br_example) None = Inr example_housing"
  by (simp add: housing_clean_def housing_clean_general_def add_bedrooms_def bedroom_table_def with_county_fips_def
      with_current_value_def current_column_def date_cols_def housing_general_example_def
      housing_4br_example_def example_housing_def ex_key eval_frame)

lemma ex_index:
  "pivot_index (filter (\<lambda>v. year v = 2024) elections_example) =
     [(''AL'', ''AUTAUGA'', 1001), (''CA'', ''ALAMEDA'', 6001)]"
  by (simp add: pivot_index_def elections_example_def List.map_filter_def county_of_def
      less_eq_char_def less_char_def)

lemma ex_columns:
  "pivot_columns (filter (\<lambda>v. year v = 2024) elections_example) =
     [''DEMOCRAT'', ''OTHER'', ''REPUBLICAN'']"
  by (simp add: pivot_columns_def elections_example_def List.map_filter_def county_of_def
      less_eq_char_def less_char_def)

lemma ex_round:
  "round1 (200 / 3) = 667 / 10" "round1 (100 / 3) = 333 / 10" "round1 (167 / 5) = 167 / 5"
  by (simp_all add: round1_def round_half_even_def Let_def)

lemma ex_votes:
  "party_votes ''DEMOCRAT'' (''CA'', ''ALAMEDA'', 6001)
     (filter (\<lambda>v. year v = 2024) elections_example) = 600"
  "party_votes ''REPUBLICAN'' (''CA'', ''ALAMEDA'', 6001)
     (filter (\<lambda>v. year v = 2024) elections_example) = 300"
  "party_votes ''DEMOCRAT'' (''AL'', ''AUTAUGA'', 1001)
     (filter (\<lambda>v. year v = 2024) elections_example) = 0"
  "party_votes ''REPUBLICAN'' (''AL'', ''AUTAUGA'', 1001)
     (filter (\<lambda>v. year v = 2024) elections_example) = 0"
  by (simp_all add: party_votes_def elections_example_def county_of_def)

lemma ex_elec: "elec_clean elections_example = example_elec"
  by (simp add: elec_clean_def ex_index ex_columns pivot_votes_def ex_votes elec_row_def
      pct_def ex_round example_elec_def)

lemma ex_merged:
  "merge_all example_housing example_elec gun_laws_example population_example None
     (Some marijuana_example) = Inr example_merged"
  by (simp add: merge_all_def merge_optional_def example_housing_def example_elec_def
      gun_laws_example_def population_example_def marijuana_example_def marijuana_cols_def
      example_merged_def eval_frame)

lemma digit_of_eval:
  "digit_of 0 = CHR ''0''" "digit_of (Suc 0) = CHR ''1''" "digit_of 2 = CHR ''2''"
  "digit_of 3 = CHR ''3''" "digit_of 4 = CHR ''4''" "digit_of 5 = CHR ''5''"
  "digit_of 6 = CHR ''6''" "digit_of 7 = CHR ''7''" "digit_of 8 = CHR ''8''"
  "digit_of 9 = CHR ''9''"
  by code_simp+

lemma ex_currency:
  "currency 1200000 = ''$1,200,000''" "currency 1500000 = ''$1,500,000''"
  "currency 251500 = ''$251,500''"
  by (simp_all add: currency_def round_half_even_def Let_def str_nat.simps digit_of_eval
      group3.simps)

lemma ex_derived: "derive_fields example_merged = Inr example_output"
  by (simp add: derive_fields_def format_if_present_def example_merged_def example_output_def
      ex_currency lean_category_def eval_frame)

lemma ex_run: "example_run = Inr example_output"
  by (simp add: example_run_def prepare_data_def ex_housing ex_elec ex_merged ex_derived bindE_def)

subsection \<open>Election aggregation\<close>










lemma derive_fields_categories:
  assumes "derive_fields merged = Inr out" "r \<in> set (rows out)"
  shows "\<exists>v. categorize_lean (get r ''lean_score'') = Inr v \<and> get r ''political_lean'' = Str v"
    and "get r ''gun_law_strength'' = Str (categorize_gun_law (get r ''gun_law_grade''))"
proof -
  from assms(1) obtain m3 m4 where
    m4: "apply_column ''political_lean'' ''lean_score'' categorize_lean m3 = Inr m4"
    and out: "apply_column ''gun_law_strength'' ''gun_law_grade'' (\<lambda>grade. Inr (categorize_gun_law grade)) m4
       = Inr out"
    by (rule derive_fields_Inr)
  define P where "P = (\<lambda>r. \<exists>v. categorize_lean (get r ''lean_score'') = Inr v \<and>
                         get r ''political_lean'' = Str v)"
  define Q where "Q = (\<lambda>r. P r \<and>
      get r ''gun_law_strength'' = Str (categorize_gun_law (get r ''gun_law_grade'')))"
  have p4: "P r" if "r \<in> set (rows m4)" for r
    using apply_column_all [OF m4, where P = "\<lambda>r. True" and Q = P] that
    by (simp add: P_def get_update)
  have "Q r"
    using apply_column_all [OF out, where P = P and Q = Q] p4 assms(2)
    by (auto simp: P_def Q_def get_update)
  then show "\<exists>v. categorize_lean (get r ''lean_score'') = Inr v \<and> get r ''political_lean'' = Str v"
    and "get r ''gun_law_strength'' = Str (categorize_gun_law (get r ''gun_law_grade''))"
    by (simp_all add: P_def Q_def)
qed

text \<open>
  C5: a county with no two-party votes gets missing shares and a missing lean score (the
  election table is computed without any exception), a missing score is categorised
  "Unknown", and in every output row with a missing lean score the political lean is
  "Unknown".
\<close>

theorem zero_two_party_votes_unknown:
  "(dem + rep = 0 \<longrightarrow>
      elec_row fips dem rep =
        [(''county_fips'', Num fips), (''dem_pct'', NA), (''rep_pct'', NA), (''lean_score'', NA)]) \<and>
   categorize_lean NA = Inr ''Unknown'' \<and>
   (prepare_data b housing_general housing_4br housing_5br elections gun_laws population
      exotic_animals marijuana = Inr out \<longrightarrow>
    (\<forall>r \<in> set (rows out).
       get r ''lean_score'' = NA \<longrightarrow> get r ''political_lean'' = Str ''Unknown''))"
proof -
  have "get r ''political_lean'' = Str ''Unknown''"
    if "prepare_data b housing_general housing_4br housing_5br elections gun_laws population
      exotic_animals marijuana = Inr out" "r \<in> set (rows out)" "get r ''lean_score'' = NA" for r
  proof -
    from that(1) obtain merged where "derive_fields merged = Inr out" by (rule prepare_data_Inr)
    from derive_fields_categories(1) [OF this that(2)] that(3) show ?thesis by simp
  qed
  then show ?thesis by (simp add: elec_row_def pct_def)
qed

theorem zero_two_party_votes_unknown_witness:
  "elec_row 1001 0 0 =
     [(''county_fips'', Num 1001), (''dem_pct'', NA), (''rep_pct'', NA), (''lean_score'', NA)] \<and>
   example_run = Inr example_output \<and>
   map (\<lambda>r. (get r ''county_name'', get r ''lean_score'', get r ''political_lean''))
     (rows example_output) =
     [(Str ''Alameda County'', Num 33.4, Str ''Strong Democrat''),
      (Str ''Autauga County'', NA, Str ''Unknown'')]"
proof -
  note T = zero_two_party_votes_unknown [of 0 0 1001 example_builtins
      "Some housing_general_example" "Some housing_4br_example" None "Some elections_example"
      "Some gun_laws_example" "Some population_example" None "Some marijuana_example"
      example_output]
  have a: "elec_row 1001 0 0 =
     [(''county_fips'', Num 1001), (''dem_pct'', NA), (''rep_pct'', NA), (''lean_score'', NA)]"
    using T [THEN conjunct1] by simp
  have "\<forall>r \<in> set (rows example_output).
       get r ''lean_score'' = NA \<longrightarrow> get r ''political_lean'' = Str ''Unknown''"
    by (rule T [THEN conjunct2, THEN conjunct2, THEN mp, OF ex_run [unfolded example_run_def]])
  then have "map (\<lambda>r. (get r ''county_name'', get r ''lean_score'', get r ''political_lean''))
     (rows example_output) =
     [(Str ''Alameda County'', Num 33.4, Str ''Strong Democrat''),
      (Str ''Autauga County'', NA, Str ''Unknown'')]"
    by (simp add: example_output_def get_def)
  with a ex_run show ?thesis by simp
qed

subsection \<open>The example run satisfies the filter and formatting properties\<close>

lemmas ex_run_unfolded = ex_run [unfolded example_run_def]

theorem output_rows_have_home_value_witness:
  "example_run = Inr example_output \<and>
   map (\<lambda>r. isna (get r ''median_home_value_all'')) (rows example_merged) = [False, False, True] \<and>
   map (\<lambda>r. isna (get r ''median_home_value_all'')) (rows example_output) = [False, False] \<and>
   dropna ''median_home_value_all'' example_output = Inr example_output"
proof -
  note T = output_rows_have_home_value [OF ex_run_unfolded]
  have a: "map (\<lambda>r. isna (get r ''median_home_value_all'')) (rows example_merged) =
      [False, False, True]"
    by (simp add: example_merged_def get_def)
  have b: "map (\<lambda>r. isna (get r ''median_home_value_all'')) (rows example_output) = [False, False]"
    using T [THEN conjunct1] by (simp add: example_output_def)
  from a b ex_run T [THEN conjunct2] show ?thesis by simp
qed

theorem formatted_home_value_never_na_witness:
  "example_run = Inr example_output \<and>
   map (\<lambda>r. (get r ''median_home_value_all_formatted'', get r ''median_home_value_4br_formatted''))
     (rows example_output) =
     [(Str ''$1,200,000'', Str ''$1,500,000''), (Str ''$251,500'', Str ''N/A'')] \<and>
   format_value NA = Inr ''N/A''"
proof -
  note T = formatted_home_value_never_na [OF ex_run_unfolded]
  have a: "map (\<lambda>r. (get r ''median_home_value_all_formatted'',
                     get r ''median_home_value_4br_formatted'')) (rows example_output) =
     [(Str ''$1,200,000'', Str ''$1,500,000''), (Str ''$251,500'', Str ''N/A'')]"
    by (simp add: example_output_def get_def)
  have b: "format_value NA = Inr ''N/A''"
    using T [THEN conjunct2] by simp
  from a b ex_run show ?thesis by simp
qed

subsection \<open>Left joins and the anchor table\<close>

lemma agree_iff: "agree cs a out \<longleftrightarrow> (\<forall>c \<in> set cs. get out c = get a c)"
  by (simp add: agree_def list_all_iff)

lemma covers_iff:
  "covers cs l m \<longleftrightarrow>
     (\<forall>a \<in> set l. \<exists>out \<in> set m. agree cs a out) \<and> (\<forall>out \<in> set m. \<exists>a \<in> set l. agree cs a out)"
  by (simp add: covers_def list_all_iff list_ex_iff)

lemma agree_refl: "agree cs a a"
  by (simp add: agree_iff)

lemma agree_trans: "agree cs a b \<Longrightarrow> agree cs b c \<Longrightarrow> agree cs a c"
  by (simp add: agree_iff)

lemma covers_refl: "covers cs l l"
  unfolding covers_iff using agree_refl by blast

lemma covers_trans: "covers cs l m \<Longrightarrow> covers cs m n \<Longrightarrow> covers cs l n"
  unfolding covers_iff by (meson agree_trans)

lemma all2_agree_trans:
  "list_all2 (agree cs) l m \<Longrightarrow> list_all2 (agree cs) m n \<Longrightarrow> list_all2 (agree cs) l n"
  by (rule list_all2_trans [of "agree cs" "agree cs" "agree cs"]) (auto intro: agree_trans)

lemma all2_covers: "list_all2 (agree cs) l m \<Longrightarrow> covers cs l m"
  unfolding covers_iff
  by (auto simp: list_all2_conv_all_nth in_set_conv_nth) (metis nth_mem)+

lemma agree_has_value:
  "agree anchor_cols a out \<Longrightarrow> has_value out = has_value a"
  by (simp add: agree_iff anchor_cols_def has_value_def)

lemma covers_filter:
  assumes "covers anchor_cols l m"
  shows "covers anchor_cols (filter has_value l) (filter has_value m)"
  using assms agree_has_value unfolding covers_iff set_filter by blast

lemma all2_filter:
  assumes "list_all2 (agree anchor_cols) l m"
  shows "list_all2 (agree anchor_cols) (filter has_value l) (filter has_value m)"
  using assms by (induction rule: list_all2_induct) (auto dest: agree_has_value)

lemma filter_key_le1: "distinct (map f xs) \<Longrightarrow> length (filter (\<lambda>x. f x = a) xs) \<le> 1"
proof (induction xs)
  case Nil then show ?case by simp
next
  case (Cons x xs)
  show ?case
  proof (cases "f x = a")
    case True
    from Cons.prems have "f x \<notin> f ` set xs" by simp
    then have "\<forall>y \<in> set xs. f y \<noteq> f x" by (metis imageI)
    with True have "\<forall>y \<in> set xs. f y \<noteq> a" by simp
    then have "filter (\<lambda>x. f x = a) xs = []" by (simp add: filter_empty_conv)
    with True show ?thesis by simp
  next
    case False
    with Cons show ?thesis by simp
  qed
qed

lemma get_extend:
  assumes "fst ` set x \<subseteq> set rcols" "c \<notin> set rcols"
  shows "get (lr @ x) c = get lr c"
proof -
  from assms have "c \<notin> fst ` set x" by auto
  then have "get x c = NA" by (rule get_not_carried)
  then show ?thesis using get_not_carried [of c lr] by (simp add: get_append)
qed

lemma agree_extend:
  assumes "fst ` set x \<subseteq> set rcols" "set cs \<inter> set rcols = {}"
  shows "agree cs lr (lr @ x)"
  unfolding agree_iff using assms by (auto intro!: get_extend [of x rcols])

lemma joined_rows_shape:
  assumes "out \<in> set (joined_rows key rcols r lr)"
  shows "\<exists>x. out = lr @ x \<and> fst ` set x \<subseteq> set rcols"
proof (cases "matches key r lr")
  case Nil
  with assms have "out = lr @ na_row rcols" by (simp add: joined_rows_def)
  moreover have "fst ` set (na_row rcols) \<subseteq> set rcols" by (auto simp: na_row_def)
  ultimately show ?thesis by blast
next
  case (Cons m' ms)
  with assms obtain rr where "out = lr @ map (\<lambda>c. (c, get rr c)) rcols"
    by (auto simp: joined_rows_def)
  moreover have "fst ` set (map (\<lambda>c. (c, get rr c)) rcols) \<subseteq> set rcols" by auto
  ultimately show ?thesis by blast
qed

lemma joined_rows_nonempty: "joined_rows key rcols r lr \<noteq> []"
  by (cases "matches key r lr") (simp_all add: joined_rows_def)

lemma joined_rows_single:
  assumes "unique_key key r"
  shows "\<exists>out. joined_rows key rcols r lr = [out]"
proof -
  from assms have "length (matches key r lr) \<le> 1"
    unfolding unique_key_def matches_def by (rule filter_key_le1)
  then show ?thesis
    by (cases "matches key r lr") (auto simp: joined_rows_def)
qed

lemma left_merge_covers:
  assumes "left_merge key l r = Inr m"
    and "set cs \<inter> set (filter (\<lambda>c. c \<noteq> key) (columns r)) = {}"
  shows "covers cs (rows l) (rows m)"
proof -
  let ?rcols = "filter (\<lambda>c. c \<noteq> key) (columns r)"
  have rows: "rows m = concat (map (joined_rows key ?rcols r) (rows l))"
    by (rule left_merge_Inr(4) [OF assms(1)])
  have ag: "agree cs lr out" if "out \<in> set (joined_rows key ?rcols r lr)" for lr out
    using joined_rows_shape [OF that] agree_extend [OF _ assms(2)] by blast
  have "\<exists>out \<in> set (rows m). agree cs lr out" if "lr \<in> set (rows l)" for lr
  proof -
    obtain out where o: "out \<in> set (joined_rows key ?rcols r lr)"
      using joined_rows_nonempty [of key ?rcols r lr] by (meson last_in_set)
    with that have "out \<in> set (rows m)" by (auto simp: rows)
    with ag [OF o] show ?thesis by blast
  qed
  moreover have "\<exists>lr \<in> set (rows l). agree cs lr out" if "out \<in> set (rows m)" for out
    using that ag by (auto simp: rows)
  ultimately show ?thesis unfolding covers_iff by blast
qed

lemma left_merge_unique:
  assumes "left_merge key l r = Inr m"
    and "set cs \<inter> set (filter (\<lambda>c. c \<noteq> key) (columns r)) = {}"
    and "unique_key key r"
  shows "list_all2 (agree cs) (rows l) (rows m)"
proof -
  let ?rcols = "filter (\<lambda>c. c \<noteq> key) (columns r)"
  have rows: "rows m = concat (map (joined_rows key ?rcols r) (rows l))"
    by (rule left_merge_Inr(4) [OF assms(1)])
  have ag: "agree cs lr out" if "out \<in> set (joined_rows key ?rcols r lr)" for lr out
    using joined_rows_shape [OF that] agree_extend [OF _ assms(2)] by blast
  have "list_all2 (agree cs) xs (concat (map (joined_rows key ?rcols r) xs))" for xs
  proof (induction xs)
    case Nil then show ?case by simp
  next
    case (Cons x xs)
    from joined_rows_single [OF assms(3), of ?rcols x] obtain out where
      o: "joined_rows key ?rcols r x = [out]" by blast
    then have "agree cs x out" using ag [of out x] by simp
    with Cons o show ?case by simp
  qed
  then show ?thesis by (simp add: rows)
qed

lemma left_merge_unmatched:
  assumes "left_merge key l r = Inr m" "lr \<in> set (rows l)" "matches key r lr = []"
  shows "lr @ na_row (filter (\<lambda>c. c \<noteq> key) (columns r)) \<in> set (rows m)"
proof -
  have "joined_rows key (filter (\<lambda>c. c \<noteq> key) (columns r)) r lr =
      [lr @ na_row (filter (\<lambda>c. c \<noteq> key) (columns r))]"
    using assms(3) by (simp add: joined_rows_def)
  with assms(2) show ?thesis
    unfolding left_merge_Inr(4) [OF assms(1)] by (auto intro!: bexI [of _ lr])
qed

lemma select_unique:
  assumes "select cs t = Inr s" "key \<in> set cs" "unique_key key t"
  shows "unique_key key s"
  using assms(2,3) by (simp add: unique_key_def select_Inr(3) [OF assms(1)] comp_def get_pairs)

lemma housing_clean_general_columns:
  assumes "housing_clean_general b hg = Inr a"
  shows "columns a = anchor_cols"
  using assms unfolding housing_clean_general_def bindE_Inr
  by (auto simp: set_columns_def anchor_cols_def split: if_splits)

lemma bedroom_table_columns:
  assumes "bedroom_table b name h = Inr t"
  shows "columns t = [''county_fips'', name]"
  using assms unfolding bedroom_table_def bindE_Inr by (auto dest: select_Inr(1))

lemma add_bedrooms_Inr:
  assumes "add_bedrooms b name src hc = Inr hc'" "name \<noteq> ''county_fips''" "name \<notin> set cs"
  shows "covers cs (rows hc) (rows hc')"
    and "columns hc' = columns hc @ (case src of None \<Rightarrow> [] | Some h \<Rightarrow> [name])"
    and "unique_bedrooms b name src \<Longrightarrow> list_all2 (agree cs) (rows hc) (rows hc')"
proof -
  show "covers cs (rows hc) (rows hc')"
  proof (cases src)
    case None
    with assms(1) show ?thesis by (simp add: add_bedrooms_def covers_refl)
  next
    case (Some h)
    with assms(1) obtain t where t: "bedroom_table b name h = Inr t"
      and m: "left_merge ''county_fips'' hc t = Inr hc'"
      by (auto simp: add_bedrooms_def bindE_Inr)
    show ?thesis
      by (rule left_merge_covers [OF m]) (use assms(2,3) in \<open>simp add: bedroom_table_columns [OF t]\<close>)
  qed
  show "columns hc' = columns hc @ (case src of None \<Rightarrow> [] | Some h \<Rightarrow> [name])"
  proof (cases src)
    case None
    with assms(1) show ?thesis by (simp add: add_bedrooms_def)
  next
    case (Some h)
    with assms(1) obtain t where t: "bedroom_table b name h = Inr t"
      and m: "left_merge ''county_fips'' hc t = Inr hc'"
      by (auto simp: add_bedrooms_def bindE_Inr)
    show ?thesis
      using left_merge_Inr(1) [OF m] assms(2) Some by (simp add: bedroom_table_columns [OF t])
  qed
  show "list_all2 (agree cs) (rows hc) (rows hc')" if "unique_bedrooms b name src"
  proof (cases src)
    case None
    with assms(1) show ?thesis by (simp add: add_bedrooms_def list_all2_refl agree_refl)
  next
    case (Some h)
    with assms(1) obtain t where t: "bedroom_table b name h = Inr t"
      and m: "left_merge ''county_fips'' hc t = Inr hc'"
      by (auto simp: add_bedrooms_def bindE_Inr)
    from that Some t have u: "unique_key ''county_fips'' t" by (simp add: unique_bedrooms_def)
    show ?thesis
      by (rule left_merge_unique [OF m _ u]) (use assms(2,3) in \<open>simp add: bedroom_table_columns [OF t]\<close>)
  qed
qed

lemma merge_selected:
  assumes "bindE (select (key # cols) src) (left_merge key l) = Inr m"
    and "key \<notin> set cols" "set cs \<inter> set cols = {}"
  shows "covers cs (rows l) (rows m)"
    and "columns m = columns l @ cols"
    and "unique_key key src \<Longrightarrow> list_all2 (agree cs) (rows l) (rows m)"
proof -
  from assms(1) obtain s where s: "select (key # cols) src = Inr s"
    and m: "left_merge key l s = Inr m" by (auto simp: bindE_Inr)
  have c: "columns s = key # cols" by (rule select_Inr(1) [OF s])
  have f: "filter (\<lambda>c. c \<noteq> key) (columns s) = cols"
    using assms(2) by (auto simp: c filter_id_conv)
  show "covers cs (rows l) (rows m)"
    by (rule left_merge_covers [OF m]) (simp add: f assms(3))
  show "columns m = columns l @ cols"
    using left_merge_Inr(1) [OF m] by (simp add: f)
  show "list_all2 (agree cs) (rows l) (rows m)" if "unique_key key src"
  proof (rule left_merge_unique [OF m])
    show "set cs \<inter> set (filter (\<lambda>c. c \<noteq> key) (columns s)) = {}" by (simp add: f assms(3))
    show "unique_key key s" by (rule select_unique [OF s _ that]) simp
  qed
qed

lemma merge_optional_Inr:
  assumes "merge_optional cols src l = Inr m"
    and "''state_code'' \<notin> set cols" "set cs \<inter> set cols = {}"
  shows "covers cs (rows l) (rows m)"
    and "columns m = columns l @ (case src of None \<Rightarrow> [] | Some t \<Rightarrow> cols)"
    and "unique_optional src \<Longrightarrow> list_all2 (agree cs) (rows l) (rows m)"
proof -
  show "covers cs (rows l) (rows m)"
    using assms merge_selected(1) [of "''state_code''" cols _ l m cs]
    by (cases src) (simp_all add: merge_optional_def covers_refl)
  show "columns m = columns l @ (case src of None \<Rightarrow> [] | Some t \<Rightarrow> cols)"
    using assms merge_selected(2) [of "''state_code''" cols _ l m cs]
    by (cases src) (simp_all add: merge_optional_def)
  show "list_all2 (agree cs) (rows l) (rows m)" if "unique_optional src"
    using assms that merge_selected(3) [of "''state_code''" cols _ l m cs]
    by (cases src) (simp_all add: merge_optional_def unique_optional_def list_all2_refl agree_refl)
qed

lemma merge_all_Inr:
  assumes "merge_all housing elec gun_laws population exotic_animals marijuana = Inr merged"
    and "columns elec = [''county_fips'', ''dem_pct'', ''rep_pct'', ''lean_score'']"
  shows "covers anchor_cols (rows housing) (rows merged)"
    and "columns merged =
           columns housing @
           [''dem_pct'', ''rep_pct'', ''lean_score'', ''gun_law_grade'', ''gun_death_rate'',
            ''population''] @
           (case exotic_animals of None \<Rightarrow> [] | Some t \<Rightarrow> exotic_cols) @
           (case marijuana of None \<Rightarrow> [] | Some t \<Rightarrow> marijuana_cols)"
    and "unique_key ''county_fips'' elec \<Longrightarrow> unique_key ''state_code'' gun_laws \<Longrightarrow>
         unique_key ''county_fips'' population \<Longrightarrow> unique_optional exotic_animals \<Longrightarrow>
         unique_optional marijuana \<Longrightarrow>
         list_all2 (agree anchor_cols) (rows housing) (rows merged)"
proof -
  from assms(1) obtain m1 m2 m3 m4 where
    m1: "left_merge ''county_fips'' housing elec = Inr m1"
    and m2: "bindE (select (''state_code'' # [''gun_law_grade'', ''gun_death_rate'']) gun_laws)
              (left_merge ''state_code'' m1) = Inr m2"
    and m3: "bindE (select (''county_fips'' # [''population'']) population)
              (left_merge ''county_fips'' m2) = Inr m3"
    and m4: "merge_optional exotic_cols exotic_animals m3 = Inr m4"
    and m5: "merge_optional marijuana_cols marijuana m4 = Inr merged"
    unfolding merge_all_def bindE_Inr [of "bindE _ _" "\<lambda>x. bindE (_ x) _"]
      bindE_Inr [of "left_merge _ _ _"] bindE_Inr [of "merge_optional _ _ _"]
    by auto
  have d1: "set anchor_cols \<inter> set (filter (\<lambda>c. c \<noteq> ''county_fips'') (columns elec)) = {}"
    by (simp add: assms(2) anchor_cols_def)
  have d2: "''state_code'' \<notin> set [''gun_law_grade'', ''gun_death_rate'']"
    "set anchor_cols \<inter> set [''gun_law_grade'', ''gun_death_rate''] = {}"
    "''county_fips'' \<notin> set [''population'']" "set anchor_cols \<inter> set [''population''] = {}"
    "''state_code'' \<notin> set exotic_cols" "set anchor_cols \<inter> set exotic_cols = {}"
    "''state_code'' \<notin> set marijuana_cols" "set anchor_cols \<inter> set marijuana_cols = {}"
    by (simp_all add: anchor_cols_def exotic_cols_def marijuana_cols_def)
  note c1 = left_merge_covers [OF m1 d1]
  note c2 = merge_selected(1) [OF m2 d2(1,2)]
  note c3 = merge_selected(1) [OF m3 d2(3,4)]
  note c4 = merge_optional_Inr(1) [OF m4 d2(5,6)]
  note c5 = merge_optional_Inr(1) [OF m5 d2(7,8)]
  show "covers anchor_cols (rows housing) (rows merged)"
    by (rule covers_trans [OF covers_trans [OF covers_trans [OF covers_trans [OF c1 c2] c3] c4] c5])
  show "columns merged =
           columns housing @
           [''dem_pct'', ''rep_pct'', ''lean_score'', ''gun_law_grade'', ''gun_death_rate'',
            ''population''] @
           (case exotic_animals of None \<Rightarrow> [] | Some t \<Rightarrow> exotic_cols) @
           (case marijuana of None \<Rightarrow> [] | Some t \<Rightarrow> marijuana_cols)"
    using left_merge_Inr(1) [OF m1] merge_selected(2) [OF m2 d2(1,2)]
      merge_selected(2) [OF m3 d2(3,4)] merge_optional_Inr(2) [OF m4 d2(5,6)]
      merge_optional_Inr(2) [OF m5 d2(7,8)]
    by (simp add: assms(2))
  show "list_all2 (agree anchor_cols) (rows housing) (rows merged)"
    if "unique_key ''county_fips'' elec" "unique_key ''state_code'' gun_laws"
       "unique_key ''county_fips'' population" "unique_optional exotic_animals"
       "unique_optional marijuana"
  proof -
    note u1 = left_merge_unique [OF m1 d1 that(1)]
    note u2 = merge_selected(3) [OF m2 d2(1,2) that(2)]
    note u3 = merge_selected(3) [OF m3 d2(3,4) that(3)]
    note u4 = merge_optional_Inr(3) [OF m4 d2(5,6) that(4)]
    note u5 = merge_optional_Inr(3) [OF m5 d2(7,8) that(5)]
    show ?thesis
      by (rule all2_agree_trans [OF all2_agree_trans [OF all2_agree_trans
            [OF all2_agree_trans [OF u1 u2] u3] u4] u5])
  qed
qed

lemma has_value_filter: "filter (\<lambda>r. \<not> isna (get r ''median_home_value_all'')) xs = filter has_value xs"
  by (simp add: has_value_def [abs_def])

lemma agree_update: "new \<notin> set cs \<Longrightarrow> agree cs r (AList.update new v r)"
  by (auto simp: agree_iff get_update)

lemma apply_column_agree:
  assumes "apply_column new col fn f = Inr g" "new \<notin> set cs"
  shows "list_all2 (agree cs) (rows f) (rows g)"
  by (rule list_all2_mono [OF apply_column_Inr(3) [OF assms(1)]])
     (use assms(2) in \<open>auto intro: agree_update\<close>)

lemma format_if_present_agree:
  assumes "format_if_present col f = Inr g" "col @ ''_formatted'' \<notin> set cs"
  shows "list_all2 (agree cs) (rows f) (rows g)"
proof (cases "col \<in> set (columns f)")
  case True
  with assms(1) have "apply_column (col @ ''_formatted'') col format_value f = Inr g"
    by (simp add: format_if_present_def)
  then show ?thesis using assms(2) by (rule apply_column_agree)
next
  case False
  with assms(1) show ?thesis by (simp add: format_if_present_def list_all2_refl agree_refl)
qed

lemma derive_fields_agree:
  assumes "derive_fields merged = Inr out"
  shows "list_all2 (agree anchor_cols) (filter has_value (rows merged)) (rows out)"
proof -
  from assms obtain m m1 m2 m3 m4 where
    m: "dropna ''median_home_value_all'' merged = Inr m"
    and m1: "apply_column ''median_home_value_all_formatted'' ''median_home_value_all'' format_value m = Inr m1"
    and m2: "format_if_present ''median_home_value_4br'' m1 = Inr m2"
    and m3: "format_if_present ''median_home_value_5br'' m2 = Inr m3"
    and m4: "apply_column ''political_lean'' ''lean_score'' categorize_lean m3 = Inr m4"
    and out: "apply_column ''gun_law_strength'' ''gun_law_grade'' (\<lambda>grade. Inr (categorize_gun_law grade)) m4
       = Inr out"
    by (rule derive_fields_Inr)
  have r0: "rows m = filter has_value (rows merged)"
    using dropna_Inr(3) [OF m] by (simp add: has_value_filter)
  have a1: "list_all2 (agree anchor_cols) (rows m) (rows m1)"
    by (rule apply_column_agree [OF m1]) (simp add: anchor_cols_def)
  have a2: "list_all2 (agree anchor_cols) (rows m1) (rows m2)"
    by (rule format_if_present_agree [OF m2]) (simp add: anchor_cols_def)
  have a3: "list_all2 (agree anchor_cols) (rows m2) (rows m3)"
    by (rule format_if_present_agree [OF m3]) (simp add: anchor_cols_def)
  have a4: "list_all2 (agree anchor_cols) (rows m3) (rows m4)"
    by (rule apply_column_agree [OF m4]) (simp add: anchor_cols_def)
  have a5: "list_all2 (agree anchor_cols) (rows m4) (rows out)"
    by (rule apply_column_agree [OF out]) (simp add: anchor_cols_def)
  show ?thesis
    unfolding r0 [symmetric]
    by (rule all2_agree_trans [OF all2_agree_trans [OF all2_agree_trans
          [OF all2_agree_trans [OF a1 a2] a3] a4] a5])
qed

lemma housing_clean_Inr:
  assumes "housing_clean b hg housing_4br housing_5br = Inr housing"
  shows "\<exists>anchor. housing_clean_general b hg = Inr anchor \<and>
    covers anchor_cols (rows anchor) (rows housing) \<and>
    columns housing = anchor_cols @
       (case housing_4br of None \<Rightarrow> [] | Some h \<Rightarrow> [''median_home_value_4br'']) @
       (case housing_5br of None \<Rightarrow> [] | Some h \<Rightarrow> [''median_home_value_5br'']) \<and>
    (unique_bedrooms b ''median_home_value_4br'' housing_4br \<and>
     unique_bedrooms b ''median_home_value_5br'' housing_5br \<longrightarrow>
     list_all2 (agree anchor_cols) (rows anchor) (rows housing))"
proof -
  from assms obtain anchor h1 where
    a: "housing_clean_general b hg = Inr anchor"
    and h1: "add_bedrooms b ''median_home_value_4br'' housing_4br anchor = Inr h1"
    and h2: "add_bedrooms b ''median_home_value_5br'' housing_5br h1 = Inr housing"
    unfolding housing_clean_def bindE_Inr by blast
  have n: "''median_home_value_4br'' \<noteq> ''county_fips''" "''median_home_value_4br'' \<notin> set anchor_cols"
    "''median_home_value_5br'' \<noteq> ''county_fips''" "''median_home_value_5br'' \<notin> set anchor_cols"
    by (simp_all add: anchor_cols_def)
  note b1 = add_bedrooms_Inr [OF h1 n(1,2)]
  note b2 = add_bedrooms_Inr [OF h2 n(3,4)]
  have c: "covers anchor_cols (rows anchor) (rows housing)"
    by (rule covers_trans [OF b1(1) b2(1)])
  have cols: "columns housing = anchor_cols @
       (case housing_4br of None \<Rightarrow> [] | Some h \<Rightarrow> [''median_home_value_4br'']) @
       (case housing_5br of None \<Rightarrow> [] | Some h \<Rightarrow> [''median_home_value_5br''])"
    using b1(2) b2(2) by (simp add: housing_clean_general_columns [OF a])
  have u: "list_all2 (agree anchor_cols) (rows anchor) (rows housing)"
    if "unique_bedrooms b ''median_home_value_4br'' housing_4br"
      "unique_bedrooms b ''median_home_value_5br'' housing_5br"
    by (rule all2_agree_trans [OF b1(3) [OF that(1)] b2(3) [OF that(2)]])
  from a c cols u show ?thesis by blast
qed

lemma elec_clean_columns:
  "columns (elec_clean el) = [''county_fips'', ''dem_pct'', ''rep_pct'', ''lean_score'']"
  by (simp add: elec_clean_def Let_def)

text \<open>
  C9: the merge is anchored on the clean overall-housing table. Every anchor row with a home
  value has an output row that agrees with it on the anchor columns, and every output row
  stems from such an anchor row, whether or not the joined sources match. When every joined
  source has at most one row per join key, the output rows are, in order, exactly the anchor
  rows with a home value: none is dropped and none is duplicated. In any left join, a left
  row without a match yields the left row extended by missing values.
\<close>

theorem left_joins_keep_anchor_rows:
  assumes "prepare_data b (Some hg) housing_4br housing_5br (Some el) (Some gl) (Some pop)
             exotic_animals marijuana = Inr out"
  shows "(\<exists>anchor. housing_clean_general b hg = Inr anchor \<and>
            columns anchor = anchor_cols \<and>
            covers anchor_cols (filter has_value (rows anchor)) (rows out) \<and>
            (unique_sources b housing_4br housing_5br el gl pop exotic_animals marijuana \<longrightarrow>
               list_all2 (agree anchor_cols) (filter has_value (rows anchor)) (rows out) \<and>
               length (rows out) = length (filter has_value (rows anchor)))) \<and>
         (\<forall>key l r m lr.
            left_merge key l r = Inr m \<and> lr \<in> set (rows l) \<and> matches key r lr = [] \<longrightarrow>
            lr @ na_row (filter (\<lambda>c. c \<noteq> key) (columns r)) \<in> set (rows m) \<and>
            (\<forall>c. get (lr @ na_row (filter (\<lambda>c. c \<noteq> key) (columns r))) c =
                 (if c \<in> fst ` set lr then get lr c else NA)))"
proof -
  from assms obtain housing merged where
    h: "housing_clean b hg housing_4br housing_5br = Inr housing"
    and m: "merge_all housing (elec_clean el) gl pop exotic_animals marijuana = Inr merged"
    and d: "derive_fields merged = Inr out"
    by (rule prepare_data_Inr) simp
  from housing_clean_Inr [OF h] obtain anchor where
    a: "housing_clean_general b hg = Inr anchor"
    and c1: "covers anchor_cols (rows anchor) (rows housing)"
    and u1: "unique_bedrooms b ''median_home_value_4br'' housing_4br \<and>
     unique_bedrooms b ''median_home_value_5br'' housing_5br \<longrightarrow>
     list_all2 (agree anchor_cols) (rows anchor) (rows housing)"
    by blast
  note ma = merge_all_Inr [OF m elec_clean_columns]
  note da = derive_fields_agree [OF d]
  have cov: "covers anchor_cols (filter has_value (rows anchor)) (rows out)"
    by (rule covers_trans [OF covers_filter [OF covers_trans [OF c1 ma(1)]] all2_covers [OF da]])
  have uni: "list_all2 (agree anchor_cols) (filter has_value (rows anchor)) (rows out) \<and>
        length (rows out) = length (filter has_value (rows anchor))"
    if "unique_sources b housing_4br housing_5br el gl pop exotic_animals marijuana"
  proof -
    from that have u: "unique_bedrooms b ''median_home_value_4br'' housing_4br"
      "unique_bedrooms b ''median_home_value_5br'' housing_5br"
      "unique_key ''county_fips'' (elec_clean el)" "unique_key ''state_code'' gl"
      "unique_key ''county_fips'' pop" "unique_optional exotic_animals" "unique_optional marijuana"
      by (simp_all add: unique_sources_def)
    have "list_all2 (agree anchor_cols) (rows anchor) (rows merged)"
      by (rule all2_agree_trans [OF u1 [THEN mp, OF conjI [OF u(1,2)]] ma(3) [OF u(3-7)]])
    from all2_agree_trans [OF all2_filter [OF this] da]
    show ?thesis by (simp add: list_all2_lengthD)
  qed
  have un: "lr @ na_row (filter (\<lambda>c. c \<noteq> key) (columns r)) \<in> set (rows m) \<and>
            (\<forall>c. get (lr @ na_row (filter (\<lambda>c. c \<noteq> key) (columns r))) c =
                 (if c \<in> fst ` set lr then get lr c else NA))"
    if "left_merge key l r = Inr m" "lr \<in> set (rows l)" "matches key r lr = []"
    for key l r m lr
    using left_merge_unmatched [OF that] by (simp add: get_append get_na_row)
  show ?thesis
    using a housing_clean_general_columns [OF a] cov uni un by blast
qed

lemma ex_unique:
  "unique_sources example_builtins (Some housing_4br_example) None elections_example
     gun_laws_example population_example None (Some marijuana_example)"
proof -
  have "bedroom_table example_builtins ''median_home_value_4br'' housing_4br_example =
      Inr \<lparr>columns = [''county_fips'', ''median_home_value_4br''],
           rows = [[(''county_fips'', Num 6001), (''median_home_value_4br'', Num 1500000)]]\<rparr>"
    by (simp add: bedroom_table_def with_county_fips_def with_current_value_def
        current_column_def date_cols_def housing_4br_example_def ex_key eval_frame)
  then show ?thesis
    by (simp add: unique_sources_def unique_bedrooms_def unique_optional_def unique_key_def
        ex_elec example_elec_def gun_laws_example_def population_example_def
        marijuana_example_def get_def)
qed

theorem left_joins_keep_anchor_rows_witness:
  "example_run = Inr example_output \<and>
   unique_sources example_builtins (Some housing_4br_example) None elections_example
     gun_laws_example population_example None (Some marijuana_example) \<and>
   (\<exists>anchor. housing_clean_general example_builtins housing_general_example = Inr anchor \<and>
      length (rows anchor) = 3 \<and>
      list_all2 (agree anchor_cols) (filter has_value (rows anchor)) (rows example_output)) \<and>
   length (rows example_output) = 2"
proof -
  note T = left_joins_keep_anchor_rows [OF ex_run_unfolded, THEN conjunct1]
  from T ex_unique obtain anchor where
    a: "housing_clean_general example_builtins housing_general_example = Inr anchor"
    and l: "list_all2 (agree anchor_cols) (filter has_value (rows anchor)) (rows example_output)"
    by blast
  have g: "housing_clean_general example_builtins housing_general_example =
      Inr \<lparr>columns = anchor_cols,
           rows = map (take 5) (rows example_housing)\<rparr>"
    by (simp add: housing_clean_general_def with_county_fips_def with_current_value_def
        current_column_def date_cols_def housing_general_example_def example_housing_def
        anchor_cols_def ex_key eval_frame)
  from a g have "length (rows anchor) = 3" by (auto simp: example_housing_def)
  moreover have "length (rows example_output) = 2" by (simp add: example_output_def)
  ultimately show ?thesis using a l ex_run ex_unique by blast
qed




























end
